theory Spec2Isabelle
  imports Main "HOL-Library.Word"
begin

unbundle bit_operations_syntax

section \<open>JSON values\<close>

text \<open>
  The SDK holds every structured payload in the JSON value type of its JSON library.
  A value is one of null, boolean, signed integer, unsigned integer, floating-point number,
  string, array or object. Integers are 64-bit; a floating-point number is kept as the
  64 bits of the double and is never computed with. An object is an association list;
  keyed reads go through \<open>map_of\<close>, so the position of a member is not observable
  by them.
\<close>

type_synonym int64 = "64 word"
type_synonym int32 = "32 word"
type_synonym double = "64 word"

datatype json =
    JNull
  | JBool bool
  | JInt int64
  | JUInt int64
  | JFloat double
  | JString string
  | JArray "json list"
  | JObject "(string \<times> json) list"

section \<open>Errors (errors.hpp)\<close>

text \<open>
  Every exception of the source is a value. The SDK's own classes carry the fields their
  constructors receive. The two exceptions of the JSON library are \<open>JsonParseError\<close>
  (with the rejected text) and \<open>JsonTypeError\<close> (with the library's error number and
  the offending value).
\<close>

datatype error =
    CredentialsNotFoundError string
  | TokenRefreshError string "int option" string
  | ConnectionError string
  | APIError string int
  | RateLimitError string
  | QuotaExceededError string string
  | PermissionDeniedError string
  | NotFoundError string string
  | SessionClosedError string
  | OnboardingError string string
  | JsonParseError string
  | JsonTypeError nat json

section \<open>Library interface\<close>

text \<open>
  What the source calls in its libraries is a parameter of the model: the JSON parser
  and printer (\<open>None\<close> is the library's exception), the message text of the library's
  exceptions, the C++ conversions from double to integer, and the URL escaping of the
  HTTP library.
\<close>

record library =
  json_parse :: "string \<Rightarrow> json option"
  json_dump :: "int \<Rightarrow> json \<Rightarrow> string option"
  json_what :: "error \<Rightarrow> string"
  double_to_int64 :: "double \<Rightarrow> int64"
  double_to_int :: "double \<Rightarrow> int32"
  curl_easy_escape :: "string \<Rightarrow> string"

definition parse :: "library \<Rightarrow> string \<Rightarrow> error + json" where
  "parse L s = (case json_parse L s of None \<Rightarrow> Inl (JsonParseError s) | Some j \<Rightarrow> Inr j)"

text \<open>\<open>j.dump(indent)\<close>; \<open>dump()\<close> is \<open>dump(-1)\<close>.\<close>

definition dump :: "library \<Rightarrow> int \<Rightarrow> json \<Rightarrow> error + string" where
  "dump L indent j =
     (case json_dump L indent j of None \<Rightarrow> Inl (JsonTypeError 316 j) | Some s \<Rightarrow> Inr s)"

subsection \<open>Accessors of the JSON library\<close>

text \<open>\<open>j.contains(key)\<close>: only an object contains keys.\<close>

fun contains :: "json \<Rightarrow> string \<Rightarrow> bool" where
  "contains (JObject kvs) k = (map_of kvs k \<noteq> None)"
| "contains _ k = False"

text \<open>\<open>j[key]\<close>; the source uses it only under a \<open>contains\<close> guard.\<close>

fun member_at :: "json \<Rightarrow> string \<Rightarrow> json" where
  "member_at (JObject kvs) k = (case map_of kvs k of Some v \<Rightarrow> v | None \<Rightarrow> JNull)"
| "member_at _ k = JNull"

text \<open>
  \<open>j[0]\<close> on a constant value: error 305 unless the value is an array. The source reads
  it only from a value that is not empty.
\<close>

fun first_element :: "json \<Rightarrow> error + json" where
  "first_element (JArray (x # xs)) = Inr x"
| "first_element (JArray []) = Inr JNull"
| "first_element j = Inl (JsonTypeError 305 j)"

text \<open>\<open>j.empty()\<close>.\<close>

fun json_empty :: "json \<Rightarrow> bool" where
  "json_empty JNull = True"
| "json_empty (JArray xs) = (xs = [])"
| "json_empty (JObject kvs) = (kvs = [])"
| "json_empty _ = False"

fun is_array :: "json \<Rightarrow> bool" where
  "is_array (JArray xs) = True"
| "is_array _ = False"

fun is_object :: "json \<Rightarrow> bool" where
  "is_object (JObject kvs) = True"
| "is_object _ = False"

text \<open>
  The values a range-based \<open>for\<close> visits: the elements of an array, the member values
  of an object, nothing for null, and a primitive value itself once.
\<close>

fun json_items :: "json \<Rightarrow> json list" where
  "json_items (JArray xs) = xs"
| "json_items (JObject kvs) = map snd kvs"
| "json_items JNull = []"
| "json_items j = [j]"

text \<open>\<open>get<std::string>()\<close>, \<open>get<bool>()\<close>, \<open>get<int64_t>()\<close> and \<open>get<int>()\<close>.\<close>

fun get_string :: "json \<Rightarrow> error + string" where
  "get_string (JString s) = Inr s"
| "get_string j = Inl (JsonTypeError 302 j)"

fun get_bool :: "json \<Rightarrow> error + bool" where
  "get_bool (JBool b) = Inr b"
| "get_bool j = Inl (JsonTypeError 302 j)"

fun get_int64 :: "library \<Rightarrow> json \<Rightarrow> error + int64" where
  "get_int64 L (JInt n) = Inr n"
| "get_int64 L (JUInt n) = Inr n"
| "get_int64 L (JFloat f) = Inr (double_to_int64 L f)"
| "get_int64 L j = Inl (JsonTypeError 302 j)"

fun get_int :: "library \<Rightarrow> json \<Rightarrow> error + int32" where
  "get_int L (JInt n) = Inr (ucast n)"
| "get_int L (JUInt n) = Inr (ucast n)"
| "get_int L (JFloat f) = Inr (double_to_int L f)"
| "get_int L (JBool b) = Inr (if b then 1 else 0)"
| "get_int L j = Inl (JsonTypeError 302 j)"

text \<open>
  \<open>j.value(key, default)\<close>: the receiver must be an object (error 306); a present member
  is converted to the type of the default, an absent one gives the default.
\<close>

fun value_with :: "(json \<Rightarrow> error + 'a) \<Rightarrow> json \<Rightarrow> string \<Rightarrow> 'a \<Rightarrow> error + 'a" where
  "value_with conv (JObject kvs) k d =
     (case map_of kvs k of None \<Rightarrow> Inr d | Some v \<Rightarrow> conv v)"
| "value_with conv j k d = Inl (JsonTypeError 306 j)"

definition value_string :: "json \<Rightarrow> string \<Rightarrow> string \<Rightarrow> error + string" where
  "value_string = value_with get_string"

definition value_bool :: "json \<Rightarrow> string \<Rightarrow> bool \<Rightarrow> error + bool" where
  "value_bool = value_with get_bool"

definition value_int64 :: "library \<Rightarrow> json \<Rightarrow> string \<Rightarrow> int64 \<Rightarrow> error + int64" where
  "value_int64 L = value_with (get_int64 L)"

definition value_int :: "library \<Rightarrow> json \<Rightarrow> string \<Rightarrow> int32 \<Rightarrow> error + int32" where
  "value_int L = value_with (get_int L)"

definition value_json :: "json \<Rightarrow> string \<Rightarrow> json \<Rightarrow> error + json" where
  "value_json = value_with Inr"

text \<open>\<open>j[key] = v\<close> on an object under construction.\<close>

fun set_member :: "json \<Rightarrow> string \<Rightarrow> json \<Rightarrow> json" where
  "set_member (JObject kvs) k v =
     JObject (if map_of kvs k = None then kvs @ [(k, v)]
              else map (\<lambda>(k', v'). if k' = k then (k', v) else (k', v')) kvs)"
| "set_member j k v = JObject [(k, v)]"

section \<open>Constants and types (types.hpp)\<close>

definition GEMINI_OAUTH_TOKEN_ENDPOINT :: string where
  "GEMINI_OAUTH_TOKEN_ENDPOINT = ''https://accounts.google.com/o/oauth2/token''"

definition GEMINI_CODE_ASSIST_ENDPOINT :: string where
  "GEMINI_CODE_ASSIST_ENDPOINT = ''https://cloudcode-pa.googleapis.com''"

definition GEMINI_CODE_ASSIST_API_VERSION :: string where
  "GEMINI_CODE_ASSIST_API_VERSION = ''v1internal''"

definition GEMINI_DIR :: string where
  "GEMINI_DIR = ''.gemini''"

definition GEMINI_CREDENTIAL_FILENAME :: string where
  "GEMINI_CREDENTIAL_FILENAME = ''oauth_creds.json''"

definition GEMINI_ENV_FILENAME :: string where
  "GEMINI_ENV_FILENAME = ''.env''"

definition TOKEN_REFRESH_BUFFER_MS :: int64 where
  "TOKEN_REFRESH_BUFFER_MS = 5 * 60 * 1000"

definition GEMINI_OAUTH_SCOPES :: "string list" where
  "GEMINI_OAUTH_SCOPES =
     [''https://www.googleapis.com/auth/cloud-platform'',
      ''https://www.googleapis.com/auth/userinfo.email'',
      ''https://www.googleapis.com/auth/userinfo.profile'']"

datatype Role = User | Assistant | System

datatype EventType =
    SessionCreated
  | SessionIdle
  | SessionError
  | AssistantMessage
  | AssistantMessageDelta
  | AssistantReasoning
  | AssistantReasoningDelta
  | ToolCallEvent
  | ToolResultEvent

datatype ToolResultType = Success | Failure | Rejected | Denied

record GeminiOAuthCredentials =
  access_token :: string
  refresh_token :: string
  token_type :: string
  expiry_date :: int64

record ContentPart =
  part_text :: "string option"
  image_url :: "string option"
  image_data :: "8 word list option"
  image_mime_type :: "string option"

record FunctionCall =
  fn_name :: string
  fn_arguments :: json

record ToolCall =
  tc_id :: string
  tc_type :: string
  tc_function :: FunctionCall

record Message =
  role :: Role
  content :: string
  parts :: "ContentPart list"
  name :: "string option"
  tool_calls :: "ToolCall list"
  tool_call_id :: "string option"

record ToolInvocation =
  inv_name :: string
  inv_arguments :: "string \<Rightarrow> json option"
  call_id :: string

record ToolResult =
  result_type :: "ToolResultType option"
  text_result_for_llm :: "string option"
  binary_result :: "8 word list option"
  session_log :: "string option"

record Tool =
  tool_name :: string
  description :: string
  parameters :: "json option"

record GenerationConfig =
  temperature :: double
  max_output_tokens :: "int32 option"
  top_p :: "double option"
  top_k :: "int32 option"
  stop_sequences :: "string list option"

record ThinkingConfig =
  include_thoughts :: bool
  thinking_budget :: "int32 option"

record MessageOptions =
  prompt :: string
  opt_context :: "string option"

record LLMUsage =
  prompt_tokens :: int64
  completion_tokens :: int64
  total_tokens :: int64

record LLMChunk =
  chunk_content :: string
  reasoning_content :: "string option"
  chunk_tool_calls :: "ToolCall list"
  usage :: "LLMUsage option"
  finish_reason :: "string option"

record SessionEvent =
  event_type :: EventType
  data :: json
  ev_session_id :: string

text \<open>A default-constructed \<open>Message\<close> with its role and content set, and a
  default-constructed \<open>LLMChunk\<close>.\<close>

definition new_Message :: "Role \<Rightarrow> string \<Rightarrow> Message" where
  "new_Message r c =
     \<lparr>role = r, content = c, parts = [], name = None, tool_calls = [], tool_call_id = None\<rparr>"

definition empty_chunk :: LLMChunk where
  "empty_chunk =
     \<lparr>chunk_content = [], reasoning_content = None, chunk_tool_calls = [],
      usage = None, finish_reason = None\<rparr>"

subsection \<open>types.cpp\<close>

text \<open>\<open>GeminiOAuthCredentials::to_json\<close>.\<close>

definition to_json :: "GeminiOAuthCredentials \<Rightarrow> json" where
  "to_json c = JObject
     [(''access_token'', JString (access_token c)),
      (''refresh_token'', JString (refresh_token c)),
      (''token_type'', JString (token_type c)),
      (''expiry_date'', JInt (expiry_date c))]"

text \<open>
  \<open>GeminiOAuthCredentials::from_json\<close>: the four members are read in the order of the
  source, and the first exception ends the call.
\<close>

definition from_json :: "library \<Rightarrow> json \<Rightarrow> error + GeminiOAuthCredentials" where
  "from_json L j =
     (case value_string j ''access_token'' '''' of Inl e \<Rightarrow> Inl e | Inr a \<Rightarrow>
     (case value_string j ''refresh_token'' '''' of Inl e \<Rightarrow> Inl e | Inr r \<Rightarrow>
     (case value_string j ''token_type'' ''Bearer'' of Inl e \<Rightarrow> Inl e | Inr t \<Rightarrow>
     (case value_int64 L j ''expiry_date'' 0 of Inl e \<Rightarrow> Inl e | Inr x \<Rightarrow>
        Inr \<lparr>access_token = a, refresh_token = r, token_type = t, expiry_date = x\<rparr>))))"

section \<open>The environment\<close>

text \<open>
  Everything outside the process is an explicit \<open>world\<close>. The system clock is a sequence
  of readings, one per read. Each \<open>curl_easy_init\<close> takes the next answer of
  \<open>network\<close>: no handle, or the transfer this handle will see (the result code of
  \<open>curl_easy_perform\<close>, the HTTP status and the body in the pieces in which it
  arrives); a performed transfer is appended to \<open>requests\<close>. The file system maps a
  path to its content and says which paths can be opened for writing. Fresh identifiers
  come from \<open>uuid_source\<close>. \<open>slept_seconds\<close> is the time spent in
  \<open>sleep_for\<close>, \<open>cerr\<close> the lines written to the error stream.

  The mutexes of the source are not modelled: every operation runs alone.
\<close>

datatype CURLcode = CURLE_OK | CURLE_FAILED string

record http_response =
  res :: CURLcode
  http_code :: int
  chunks :: "string list"

datatype curl_outcome = InitFailed | Transfer http_response

record http_request =
  url :: string
  headers :: "string list"
  post_fields :: string

record world =
  clock :: "nat \<Rightarrow> int64"
  clock_reads :: nat
  network :: "nat \<Rightarrow> curl_outcome"
  curl_handles :: nat
  requests :: "http_request list"
  files :: "string \<Rightarrow> string option"
  can_write :: "string \<Rightarrow> bool"
  getenv :: "string \<Rightarrow> string option"
  pw_dir :: "string option"
  uuid_source :: "nat \<Rightarrow> string"
  uuids_drawn :: nat
  slept_seconds :: nat
  cerr :: "string list"

definition current_time_ms :: "world \<Rightarrow> int64 \<times> world" where
  "current_time_ms w = (clock w (clock_reads w), w\<lparr>clock_reads := Suc (clock_reads w)\<rparr>)"

definition curl_easy_init :: "world \<Rightarrow> http_response option \<times> world" where
  "curl_easy_init w =
     ((case network w (curl_handles w) of InitFailed \<Rightarrow> None | Transfer r \<Rightarrow> Some r),
      w\<lparr>curl_handles := Suc (curl_handles w)\<rparr>)"

definition curl_easy_perform :: "http_request \<Rightarrow> world \<Rightarrow> world" where
  "curl_easy_perform rq w = w\<lparr>requests := requests w @ [rq]\<rparr>"

definition generate_uuid :: "world \<Rightarrow> string \<times> world" where
  "generate_uuid w = (uuid_source w (uuids_drawn w), w\<lparr>uuids_drawn := Suc (uuids_drawn w)\<rparr>)"

definition sleep_for :: "nat \<Rightarrow> world \<Rightarrow> world" where
  "sleep_for secs w = w\<lparr>slept_seconds := slept_seconds w + secs\<rparr>"

definition LF :: char where "LF = CHR 0x0A"
definition CR :: char where "CR = CHR 0x0D"
definition TAB :: char where "TAB = CHR 0x09"

text \<open>\<open>std::to_string\<close> of an integer.\<close>

fun digits :: "nat \<Rightarrow> string" where
  "digits n = (if n < 10 then [char_of (48 + n)] else digits (n div 10) @ [char_of (48 + n mod 10)])"

declare digits.simps [simp del]

definition to_string :: "int \<Rightarrow> string" where
  "to_string i = (if i < 0 then CHR ''-'' # digits (nat (- i)) else digits (nat i))"

text \<open>The lines \<open>std::getline\<close> reads from a text.\<close>

function getlines :: "string \<Rightarrow> string list" where
  "getlines [] = []"
| "getlines (c # cs) =
     takeWhile (\<lambda>x. x \<noteq> LF) (c # cs) # getlines (drop 1 (dropWhile (\<lambda>x. x \<noteq> LF) (c # cs)))"
  by pat_completeness auto
termination
  by (relation "measure length")
    (auto simp: less_Suc_eq_le intro: order_trans [OF diff_le_self length_dropWhile_le])

subsection \<open>Paths (types.cpp, the branch without \<open>_WIN32\<close>)\<close>

definition get_home_directory :: "world \<Rightarrow> string" where
  "get_home_directory w =
     (case getenv w ''HOME'' of Some home \<Rightarrow> home
      | None \<Rightarrow> (case pw_dir w of Some d \<Rightarrow> d | None \<Rightarrow> []))"

definition get_gemini_credential_path :: "string option \<Rightarrow> world \<Rightarrow> string" where
  "get_gemini_credential_path custom_path w =
     (case custom_path of Some p \<Rightarrow> p
      | None \<Rightarrow>
         (let home = get_home_directory w in
          if home = [] then []
          else home @ ''/'' @ GEMINI_DIR @ ''/'' @ GEMINI_CREDENTIAL_FILENAME))"

definition get_gemini_env_path :: "string option \<Rightarrow> world \<Rightarrow> string" where
  "get_gemini_env_path custom_path w =
     (case custom_path of Some p \<Rightarrow> p
      | None \<Rightarrow>
         (let home = get_home_directory w in
          if home = [] then []
          else home @ ''/'' @ GEMINI_DIR @ ''/'' @ GEMINI_ENV_FILENAME))"

section \<open>OAuth manager (auth.cpp)\<close>

record OAuthManager =
  oauth_path :: "string option"
  client_id :: string
  client_secret :: string
  credentials :: "GeminiOAuthCredentials option"
  om_project_id :: string

definition get_credential_path :: "OAuthManager \<Rightarrow> world \<Rightarrow> string" where
  "get_credential_path om w = get_gemini_credential_path (oauth_path om) w"

definition load_cached_credentials ::
  "library \<Rightarrow> OAuthManager \<Rightarrow> world \<Rightarrow> error + GeminiOAuthCredentials" where
  "load_cached_credentials L om w =
     (let key_file = get_credential_path om w in
      case files w key_file of
        None \<Rightarrow> Inl (CredentialsNotFoundError key_file)
      | Some buffer \<Rightarrow>
          (case parse L buffer of Inl e \<Rightarrow> Inl e | Inr j \<Rightarrow> from_json L j))"

text \<open>
  \<open>save_credentials\<close>: opening the output stream empties the file before the credential
  is printed, so an exception of the printer leaves an empty file behind. A file that
  cannot be opened is left alone, silently.
\<close>

definition save_credentials ::
  "library \<Rightarrow> OAuthManager \<Rightarrow> GeminiOAuthCredentials \<Rightarrow> world \<Rightarrow> (error + unit) \<times> world" where
  "save_credentials L om creds w =
     (let key_file = get_credential_path om w in
      if can_write w key_file then
        (case dump L 2 (to_json creds) of
           Inl e \<Rightarrow> (Inl e, w\<lparr>files := (files w)(key_file \<mapsto> [])\<rparr>)
         | Inr s \<Rightarrow> (Inr (), w\<lparr>files := (files w)(key_file \<mapsto> s)\<rparr>))
      else (Inr (), w))"

fun join_scopes :: "string list \<Rightarrow> string" where
  "join_scopes [] = []"
| "join_scopes [x] = x"
| "join_scopes (x # y # ys) = x @ '' '' @ join_scopes (y # ys)"

definition token_request :: "library \<Rightarrow> OAuthManager \<Rightarrow> GeminiOAuthCredentials \<Rightarrow> http_request" where
  "token_request L om creds =
     \<lparr>url = GEMINI_OAUTH_TOKEN_ENDPOINT,
      headers = [''Content-Type: application/x-www-form-urlencoded'', ''Accept: application/json''],
      post_fields =
        ''grant_type=refresh_token'' @
        ''&refresh_token='' @ refresh_token creds @
        ''&client_id='' @ client_id om @
        ''&client_secret='' @ client_secret om @
        ''&scope='' @ curl_easy_escape L (join_scopes GEMINI_OAUTH_SCOPES)\<rparr>"

text \<open>
  The end of \<open>refresh_access_token\<close>, from the answer of the token endpoint on:
  the new credential is built from the answer, stamped with the clock, and saved.
  \<open>expires_in\<close> is read as an \<open>int\<close> (the default \<open>3600\<close> is one) and widened.
\<close>

definition credentials_from_token_data ::
  "library \<Rightarrow> OAuthManager \<Rightarrow> GeminiOAuthCredentials \<Rightarrow> json \<Rightarrow> world \<Rightarrow>
     (error + GeminiOAuthCredentials) \<times> world" where
  "credentials_from_token_data L om creds token_data w =
     (case value_string token_data ''access_token'' [] of Inl e \<Rightarrow> (Inl e, w) | Inr a \<Rightarrow>
     (case value_string token_data ''refresh_token'' (refresh_token creds) of
        Inl e \<Rightarrow> (Inl e, w) | Inr r \<Rightarrow>
     (case value_string token_data ''token_type'' ''Bearer'' of Inl e \<Rightarrow> (Inl e, w) | Inr t \<Rightarrow>
     (case value_int L token_data ''expires_in'' 3600 of Inl e \<Rightarrow> (Inl e, w) | Inr expires_in \<Rightarrow>
       (let (now, w1) = current_time_ms w;
            new_credentials =
              \<lparr>access_token = a, refresh_token = r, token_type = t,
               expiry_date = now + scast expires_in * 1000\<rparr>
        in (case save_credentials L om new_credentials w1 of
              (Inl e, w2) \<Rightarrow> (Inl e, w2)
            | (Inr u, w2) \<Rightarrow> (Inr new_credentials, w2)))))))"

definition refresh_access_token ::
  "library \<Rightarrow> OAuthManager \<Rightarrow> GeminiOAuthCredentials \<Rightarrow> world \<Rightarrow>
     (error + GeminiOAuthCredentials) \<times> world" where
  "refresh_access_token L om creds w =
     (if refresh_token creds = [] then
        (Inl (TokenRefreshError ''No refresh token available in credentials.'' None []), w)
      else
        (case curl_easy_init w of
           (None, w1) \<Rightarrow> (Inl (TokenRefreshError ''Failed to initialize CURL'' None []), w1)
         | (Some r, w1) \<Rightarrow>
            (let w2 = curl_easy_perform (token_request L om creds) w1;
                 response = concat (chunks r)
             in (case res r of
                   CURLE_FAILED msg \<Rightarrow> (Inl (TokenRefreshError (''CURL error: '' @ msg) None []), w2)
                 | CURLE_OK \<Rightarrow>
                    if http_code r \<noteq> 200 then
                      (Inl (TokenRefreshError (''Token refresh failed: '' @ to_string (http_code r))
                              (Some (http_code r)) response), w2)
                    else
                      (case parse L response of
                         Inl e \<Rightarrow> (Inl e, w2)
                       | Inr token_data \<Rightarrow>
                          if contains token_data ''error'' then
                            (case value_string token_data ''error'' ''Unknown error'' of
                               Inl e \<Rightarrow> (Inl e, w2)
                             | Inr err \<Rightarrow>
                                (case value_string token_data ''error_description'' [] of
                                   Inl e \<Rightarrow> (Inl e, w2)
                                 | Inr error_desc \<Rightarrow>
                                    (Inl (TokenRefreshError (err @ '': '' @ error_desc) None []), w2)))
                          else credentials_from_token_data L om creds token_data w2)))))"

text \<open>
  \<open>is_token_valid\<close>. The comparison is the signed one of \<open>int64_t\<close>; the subtraction
  wraps where the C++ one would overflow.
\<close>

definition is_token_valid :: "GeminiOAuthCredentials \<Rightarrow> world \<Rightarrow> bool \<times> world" where
  "is_token_valid creds w =
     (if expiry_date creds = 0 then (False, w)
      else (let (now, w1) = current_time_ms w
            in (now <s expiry_date creds - TOKEN_REFRESH_BUFFER_MS, w1)))"

definition invalidate_credentials :: "OAuthManager \<Rightarrow> OAuthManager" where
  "invalidate_credentials om = om\<lparr>credentials := None\<rparr>"

text \<open>
  \<open>ensure_authenticated\<close>. With \<open>force_refresh\<close> the validity test is not evaluated
  (the \<open>||\<close> of the source), so the clock is not read.
\<close>

definition ensure_authenticated ::
  "library \<Rightarrow> bool \<Rightarrow> OAuthManager \<Rightarrow> world \<Rightarrow> (error + string) \<times> OAuthManager \<times> world" where
  "ensure_authenticated L force_refresh om w =
     (case (case credentials om of
              Some c \<Rightarrow> Inr c
            | None \<Rightarrow> load_cached_credentials L om w) of
        Inl e \<Rightarrow> (Inl e, om, w)
      | Inr c \<Rightarrow>
         (let om1 = om\<lparr>credentials := Some c\<rparr>;
              (must_refresh, w1) =
                (if force_refresh then (True, w)
                 else (let (valid, w') = is_token_valid c w in (\<not> valid, w')))
          in if must_refresh then
               (case refresh_access_token L om1 c w1 of
                  (Inl e, w2) \<Rightarrow> (Inl e, om1, w2)
                | (Inr c', w2) \<Rightarrow> (Inr (access_token c'), om1\<lparr>credentials := Some c'\<rparr>, w2))
             else (Inr (access_token c), om1, w1)))"

definition get_api_endpoint :: string where
  "get_api_endpoint = GEMINI_CODE_ASSIST_ENDPOINT @ ''/'' @ GEMINI_CODE_ASSIST_API_VERSION"

text \<open>
  \<open>get_project_id\<close>: the environment variable, else the first line of the \<open>.env\<close> file
  that starts with \<open>GOOGLE_CLOUD_PROJECT=\<close> (one leading and one trailing quote
  removed), else the stored project id.
\<close>

definition strip_quotes :: "string \<Rightarrow> string" where
  "strip_quotes v =
     (let v1 = (if v \<noteq> [] \<and> (hd v = CHR 0x22 \<or> hd v = CHR 0x27) then tl v else v)
      in if v1 \<noteq> [] \<and> (last v1 = CHR 0x22 \<or> last v1 = CHR 0x27) then butlast v1 else v1)"

definition get_project_id :: "OAuthManager \<Rightarrow> world \<Rightarrow> string" where
  "get_project_id om w =
     (case getenv w ''GOOGLE_CLOUD_PROJECT'' of
        Some env_project \<Rightarrow> env_project
      | None \<Rightarrow>
         (case files w (get_gemini_env_path None w) of
            None \<Rightarrow> om_project_id om
          | Some txt \<Rightarrow>
             (case find (\<lambda>line. take 21 line = ''GOOGLE_CLOUD_PROJECT='') (getlines txt) of
                Some line \<Rightarrow> strip_quotes (drop 21 line)
              | None \<Rightarrow> om_project_id om)))"

section \<open>Backend (backend.cpp)\<close>

definition ONBOARD_MAX_RETRIES :: nat where
  "ONBOARD_MAX_RETRIES = 30"

definition ONBOARD_SLEEP_SECONDS :: nat where
  "ONBOARD_SLEEP_SECONDS = 2"

record Backend =
  timeout :: double
  oauth_manager :: OAuthManager
  project_id :: string

subsection \<open>\<open>base64_encode\<close>\<close>

definition alphabet :: string where
  "alphabet = ''ABCDEFGHIJKLMNOPQRSTUVWXYZabcdefghijklmnopqrstuvwxyz0123456789+/''"

text \<open>
  The body of the \<open>while\<close> loop takes up to three bytes, a missing one counting as 0,
  and appends four characters.
\<close>

fun encode_triples :: "8 word list \<Rightarrow> string" where
  "encode_triples [] = []"
| "encode_triples (a # rest) =
     (let octet_a = (ucast a :: 32 word);
          octet_b = (case rest of [] \<Rightarrow> 0 | b # bs \<Rightarrow> (ucast b :: 32 word));
          octet_c = (case drop 1 rest of [] \<Rightarrow> 0 | c # cs \<Rightarrow> (ucast c :: 32 word));
          triple = push_bit 16 octet_a + push_bit 8 octet_b + octet_c
      in [alphabet ! unat (drop_bit 18 triple AND 0x3F),
          alphabet ! unat (drop_bit 12 triple AND 0x3F),
          alphabet ! unat (drop_bit 6 triple AND 0x3F),
          alphabet ! unat (triple AND 0x3F)] @ encode_triples (drop 2 rest))"

definition base64_encode :: "8 word list \<Rightarrow> string" where
  "base64_encode bytes =
     (let result = encode_triples bytes;
          m = length bytes mod 3
      in if m > 0 then take (length result - (3 - m)) result @ replicate (3 - m) (CHR ''='')
         else result)"

subsection \<open>\<open>get_auth_headers\<close>\<close>

text \<open>The header map, in the order of its keys.\<close>

definition get_auth_headers ::
  "library \<Rightarrow> bool \<Rightarrow> OAuthManager \<Rightarrow> world \<Rightarrow>
     (error + (string \<times> string) list) \<times> OAuthManager \<times> world" where
  "get_auth_headers L force_refresh om w =
     (case ensure_authenticated L force_refresh om w of
        (Inl e, om1, w1) \<Rightarrow> (Inl e, om1, w1)
      | (Inr token, om1, w1) \<Rightarrow>
          (Inr [(''Authorization'', ''Bearer '' @ token), (''Content-Type'', ''application/json'')],
           om1, w1))"

definition header_lines :: "(string \<times> string) list \<Rightarrow> string list" where
  "header_lines hs = map (\<lambda>(k, v). k @ '': '' @ v) hs"

text \<open>\<open>headers["Authorization"].substr(7)\<close>.\<close>

definition bearer_token :: "(string \<times> string) list \<Rightarrow> string" where
  "bearer_token hs = drop 7 (case map_of hs ''Authorization'' of Some v \<Rightarrow> v | None \<Rightarrow> [])"

subsection \<open>\<open>prepare_messages\<close>\<close>

definition part_entries :: "ContentPart \<Rightarrow> json list" where
  "part_entries part =
     (case part_text part of
        Some t \<Rightarrow> [JObject [(''text'', JString t)]]
      | None \<Rightarrow> []) @
     (case image_data part of
        None \<Rightarrow> []
      | Some bytes \<Rightarrow>
         (case image_mime_type part of
            None \<Rightarrow> []
          | Some mime \<Rightarrow>
             [JObject [(''inlineData'',
                JObject [(''mimeType'', JString mime), (''data'', JString (base64_encode bytes))])]]))"

definition function_call_entry :: "ToolCall \<Rightarrow> json" where
  "function_call_entry tc =
     JObject [(''functionCall'',
       JObject [(''name'', JString (fn_name (tc_function tc))),
                (''args'', fn_arguments (tc_function tc))])]"

definition content_parts_of :: "Message \<Rightarrow> json list" where
  "content_parts_of msg =
     (if content msg \<noteq> [] then [JObject [(''text'', JString (content msg))]] else []) @
     concat (map part_entries (parts msg)) @
     map function_call_entry (tool_calls msg) @
     (case tool_call_id msg of
        None \<Rightarrow> []
      | Some i \<Rightarrow>
         [JObject [(''functionResponse'',
            JObject [(''name'', JString (case name msg of Some n \<Rightarrow> n | None \<Rightarrow> [])),
                     (''response'', JObject [(''result'', JString (content msg))])])]])"

fun prepare_entries :: "Message list \<Rightarrow> json list" where
  "prepare_entries [] = []"
| "prepare_entries (msg # rest) =
     (let role_name = (if role msg = Assistant then ''model'' else ''user'');
          content_parts = content_parts_of msg
      in (if content_parts \<noteq> []
          then [JObject [(''role'', JString role_name), (''parts'', JArray content_parts)]]
          else []) @ prepare_entries rest)"

definition prepare_messages :: "Message list \<Rightarrow> json" where
  "prepare_messages messages = JArray (prepare_entries messages)"

subsection \<open>\<open>prepare_tools\<close> and \<open>build_request_payload\<close>\<close>

definition func_def_of :: "Tool \<Rightarrow> error + json" where
  "func_def_of tool =
     (let func_def = JObject [(''name'', JString (tool_name tool)),
                              (''description'', JString (description tool))]
      in case parameters tool of
           None \<Rightarrow> Inr func_def
         | Some ps \<Rightarrow>
            (case value_json ps ''properties'' (JObject []) of
               Inl e \<Rightarrow> Inl e
             | Inr props \<Rightarrow>
                (case value_json ps ''required'' (JArray []) of
                   Inl e \<Rightarrow> Inl e
                 | Inr req \<Rightarrow>
                    Inr (set_member func_def ''parameters''
                      (JObject [(''type'', JString ''object''), (''properties'', props),
                                (''required'', req)])))))"

fun func_decls_of :: "Tool list \<Rightarrow> error + json list" where
  "func_decls_of [] = Inr []"
| "func_decls_of (tool # rest) =
     (case func_def_of tool of
        Inl e \<Rightarrow> Inl e
      | Inr d \<Rightarrow> (case func_decls_of rest of Inl e \<Rightarrow> Inl e | Inr ds \<Rightarrow> Inr (d # ds)))"

definition prepare_tools :: "Tool list \<Rightarrow> error + json" where
  "prepare_tools tools =
     (if tools = [] then Inr JNull
      else (case func_decls_of tools of
              Inl e \<Rightarrow> Inl e
            | Inr func_decls \<Rightarrow> Inr (JArray [JObject [(''functionDeclarations'', JArray func_decls)]])))"

text \<open>The double \<open>0.7\<close>.\<close>

definition default_temperature :: double where
  "default_temperature = 0x3FE6666666666666"

definition set_optional :: "json \<Rightarrow> string \<Rightarrow> json option \<Rightarrow> json" where
  "set_optional j k v = (case v of None \<Rightarrow> j | Some x \<Rightarrow> set_member j k x)"

definition gen_config_of :: "GenerationConfig option \<Rightarrow> ThinkingConfig option \<Rightarrow> json" where
  "gen_config_of generation_config thinking_config =
     (let g0 = JObject [(''temperature'', JFloat default_temperature)];
          g1 = (case generation_config of
                  None \<Rightarrow> g0
                | Some gc \<Rightarrow>
                   set_optional
                     (set_optional
                       (set_optional
                         (set_optional
                           (set_member g0 ''temperature'' (JFloat (temperature gc)))
                           ''maxOutputTokens'' (map_option (\<lambda>n. JInt (scast n)) (max_output_tokens gc)))
                         ''topP'' (map_option JFloat (top_p gc)))
                       ''topK'' (map_option (\<lambda>n. JInt (scast n)) (top_k gc)))
                     ''stopSequences'' (map_option (\<lambda>ss. JArray (map JString ss)) (stop_sequences gc)))
      in case thinking_config of
           None \<Rightarrow> g1
         | Some tc \<Rightarrow>
            if include_thoughts tc then
              set_member g1 ''thinkingConfig''
                (set_optional (JObject [(''includeThoughts'', JBool True)]) ''thinkingBudget''
                   (map_option (\<lambda>n. JInt (scast n)) (thinking_budget tc)))
            else g1)"

definition build_request_payload ::
  "string \<Rightarrow> Message list \<Rightarrow> GenerationConfig option \<Rightarrow> ThinkingConfig option \<Rightarrow>
     Tool list \<Rightarrow> string \<Rightarrow> error + json" where
  "build_request_payload model_name messages generation_config thinking_config tools pid =
     (let request_body =
            JObject [(''contents'', prepare_messages messages),
                     (''generationConfig'', gen_config_of generation_config thinking_config)]
      in case prepare_tools tools of
           Inl e \<Rightarrow> Inl e
         | Inr prepared_tools \<Rightarrow>
            (let request_body1 =
                   (if prepared_tools \<noteq> JNull \<and> \<not> json_empty prepared_tools
                    then set_member request_body ''tools'' prepared_tools else request_body);
                 payload = JObject [(''model'', JString model_name), (''request'', request_body1)]
             in Inr (if pid \<noteq> [] then set_member payload ''project'' (JString pid) else payload)))"

subsection \<open>Reducing a response to a chunk\<close>

text \<open>
  The loop over the parts of the first candidate, the same in \<open>parse_completion_response\<close>
  and in the streaming callback. The identifier of a tool call is drawn before its name
  and arguments are read.
\<close>

fun parse_parts :: "json list \<Rightarrow> LLMChunk \<Rightarrow> world \<Rightarrow> (error + LLMChunk) \<times> world" where
  "parse_parts [] chunk w = (Inr chunk, w)"
| "parse_parts (part # rest) chunk w =
     (case (if contains part ''text''
            then (case get_string (member_at part ''text'') of
                    Inl e \<Rightarrow> Inl e
                  | Inr t \<Rightarrow> Inr (chunk\<lparr>chunk_content := chunk_content chunk @ t\<rparr>))
            else Inr chunk) of
        Inl e \<Rightarrow> (Inl e, w)
      | Inr c1 \<Rightarrow>
         (case (if contains part ''thought''
                then (case get_string (member_at part ''thought'') of
                        Inl e \<Rightarrow> Inl e
                      | Inr t \<Rightarrow> Inr (c1\<lparr>reasoning_content := Some t\<rparr>))
                else Inr c1) of
            Inl e \<Rightarrow> (Inl e, w)
          | Inr c2 \<Rightarrow>
             if contains part ''functionCall'' then
               (let (uuid, w1) = generate_uuid w;
                    fc = member_at part ''functionCall''
                in case value_string fc ''name'' [] of
                     Inl e \<Rightarrow> (Inl e, w1)
                   | Inr nm \<Rightarrow>
                      (case value_json fc ''arguments'' (JObject []) of
                         Inl e \<Rightarrow> (Inl e, w1)
                       | Inr dflt \<Rightarrow>
                          (case value_json fc ''args'' dflt of
                             Inl e \<Rightarrow> (Inl e, w1)
                           | Inr args \<Rightarrow>
                              parse_parts rest
                                (c2\<lparr>chunk_tool_calls := chunk_tool_calls c2 @
                                   [\<lparr>tc_id = uuid, tc_type = ''function'',
                                     tc_function = \<lparr>fn_name = nm, fn_arguments = args\<rparr>\<rparr>]\<rparr>)
                                w1)))
             else parse_parts rest c2 w))"

definition response_data_of :: "json \<Rightarrow> json" where
  "response_data_of d = (if contains d ''response'' then member_at d ''response'' else d)"

definition has_candidates :: "json \<Rightarrow> bool" where
  "has_candidates response_data =
     (contains response_data ''candidates'' \<and> \<not> json_empty (member_at response_data ''candidates''))"

text \<open>The first candidate and the chunk of its parts.\<close>

definition parse_candidate :: "json \<Rightarrow> world \<Rightarrow> (error + json \<times> LLMChunk) \<times> world" where
  "parse_candidate response_data w =
     (case first_element (member_at response_data ''candidates'') of
        Inl e \<Rightarrow> (Inl e, w)
      | Inr candidate \<Rightarrow>
         (case value_json candidate ''content'' (JObject []) of
            Inl e \<Rightarrow> (Inl e, w)
          | Inr cont \<Rightarrow>
             (case value_json cont ''parts'' (JArray []) of
                Inl e \<Rightarrow> (Inl e, w)
              | Inr ps \<Rightarrow>
                 (case parse_parts (json_items ps) empty_chunk w of
                    (Inl e, w1) \<Rightarrow> (Inl e, w1)
                  | (Inr chunk, w1) \<Rightarrow> (Inr (candidate, chunk), w1)))))"

definition usage_of :: "library \<Rightarrow> json \<Rightarrow> error + LLMUsage" where
  "usage_of L usage_data =
     (case value_int64 L usage_data ''promptTokenCount'' 0 of Inl e \<Rightarrow> Inl e | Inr p \<Rightarrow>
     (case value_int64 L usage_data ''candidatesTokenCount'' 0 of Inl e \<Rightarrow> Inl e | Inr c \<Rightarrow>
     (case value_int64 L usage_data ''totalTokenCount'' 0 of Inl e \<Rightarrow> Inl e | Inr t \<Rightarrow>
        Inr \<lparr>prompt_tokens = p, completion_tokens = c, total_tokens = t\<rparr>)))"

definition parse_completion_response ::
  "library \<Rightarrow> json \<Rightarrow> world \<Rightarrow> (error + LLMChunk) \<times> world" where
  "parse_completion_response L d w =
     (let response_data = response_data_of d in
      if \<not> has_candidates response_data then (Inr empty_chunk, w)
      else
        (case parse_candidate response_data w of
           (Inl e, w1) \<Rightarrow> (Inl e, w1)
         | (Inr (candidate, chunk), w1) \<Rightarrow>
            (let usage_data =
                   (if contains d ''usageMetadata'' then Some (member_at d ''usageMetadata'')
                    else if contains response_data ''usageMetadata''
                    then Some (member_at response_data ''usageMetadata'') else None)
             in case (case usage_data of
                        None \<Rightarrow> Inr chunk
                      | Some u \<Rightarrow>
                         (case usage_of L u of
                            Inl e \<Rightarrow> Inl e
                          | Inr us \<Rightarrow> Inr (chunk\<lparr>usage := Some us\<rparr>))) of
                  Inl e \<Rightarrow> (Inl e, w1)
                | Inr chunk1 \<Rightarrow>
                   if contains candidate ''finishReason'' then
                     (case get_string (member_at candidate ''finishReason'') of
                        Inl e \<Rightarrow> (Inl e, w1)
                      | Inr fr \<Rightarrow> (Inr (chunk1\<lparr>finish_reason := Some fr\<rparr>), w1))
                   else (Inr chunk1, w1))))"

subsection \<open>\<open>handle_http_error\<close>\<close>

text \<open>
  The exception \<open>handle_http_error\<close> throws. Whatever goes wrong while the message is
  looked up in the body is swallowed, and the message is then the body.
\<close>

definition error_message_of :: "library \<Rightarrow> string \<Rightarrow> string" where
  "error_message_of L body =
     (case parse L body of
        Inl e \<Rightarrow> body
      | Inr d \<Rightarrow>
         if contains d ''error'' \<and> contains (member_at d ''error'') ''message'' then
           (case get_string (member_at (member_at d ''error'') ''message'') of
              Inl e \<Rightarrow> body
            | Inr m \<Rightarrow> m)
         else body)"

definition handle_http_error :: "library \<Rightarrow> int \<Rightarrow> string \<Rightarrow> error" where
  "handle_http_error L status_code body =
     (let error_msg = error_message_of L body in
      if status_code = 429 then RateLimitError (''Rate limit exceeded: '' @ error_msg)
      else if status_code = 403 then PermissionDeniedError (''Permission denied: '' @ error_msg)
      else APIError (''API error: '' @ error_msg) status_code)"

subsection \<open>\<open>ensure_project_id\<close> and \<open>onboard_for_project\<close>\<close>

definition client_metadata :: "string \<Rightarrow> json" where
  "client_metadata env_project_id =
     JObject [(''ideType'', JString ''IDE_UNSPECIFIED''),
              (''platform'', JString ''PLATFORM_UNSPECIFIED''),
              (''pluginType'', JString ''GEMINI''),
              (''duetProject'', if env_project_id = [] then JNull else JString env_project_id)]"

definition api_headers :: "string \<Rightarrow> string list" where
  "api_headers token = [''Authorization: Bearer '' @ token, ''Content-Type: application/json'']"

definition onboard_request_of :: "string \<Rightarrow> string \<Rightarrow> json" where
  "onboard_request_of env_project_id tier_id =
     (if tier_id = ''free-tier'' then
        JObject [(''tierId'', JString tier_id),
                 (''cloudaicompanionProject'', JNull),
                 (''metadata'', client_metadata env_project_id)]
      else
        JObject [(''tierId'', JString tier_id),
                 (''cloudaicompanionProject'', JString env_project_id),
                 (''metadata'', client_metadata env_project_id)])"

text \<open>
  The polling loop of \<open>onboard_for_project\<close>, by the number of iterations that remain
  (the counter \<open>i\<close> of the source is \<open>ONBOARD_MAX_RETRIES\<close> minus that number).
  \<open>Inr (Some pid)\<close> is the \<open>return pid\<close> inside the loop, \<open>Inr None\<close> is leaving
  the loop, by \<open>break\<close> or because no iteration remains. An iteration that gets no
  handle is skipped by \<open>continue\<close>, without a request and without sleeping.
\<close>

fun onboard_loop ::
  "library \<Rightarrow> string \<Rightarrow> string \<Rightarrow> json \<Rightarrow> nat \<Rightarrow> world \<Rightarrow> (error + string option) \<times> world" where
  "onboard_loop L token tier_id onboard_request 0 w = (Inr None, w)"
| "onboard_loop L token tier_id onboard_request (Suc n) w =
     (case curl_easy_init w of
        (None, w1) \<Rightarrow> onboard_loop L token tier_id onboard_request n w1
      | (Some r, w1) \<Rightarrow>
         (case dump L (- 1) onboard_request of
            Inl e \<Rightarrow> (Inl e, w1)
          | Inr request_body \<Rightarrow>
             (let w2 = curl_easy_perform
                         \<lparr>url = get_api_endpoint @ '':onboardUser'',
                          headers = api_headers token,
                          post_fields = request_body\<rparr> w1;
                  response = concat (chunks r)
              in if res r \<noteq> CURLE_OK \<or> http_code r \<noteq> 200 then
                   (Inl (OnboardingError ''Onboard request failed'' tier_id), w2)
                 else
                   (case parse L response of
                      Inl e \<Rightarrow> (Inl e, w2)
                    | Inr lro_data \<Rightarrow>
                       (case value_bool lro_data ''done'' False of
                          Inl e \<Rightarrow> (Inl e, w2)
                        | Inr finished \<Rightarrow>
                           if finished then
                             (if contains lro_data ''response'' \<and>
                                 contains (member_at lro_data ''response'') ''cloudaicompanionProject''
                              then
                                (case value_string
                                        (member_at (member_at lro_data ''response'')
                                           ''cloudaicompanionProject'') ''id'' [] of
                                   Inl e \<Rightarrow> (Inl e, w2)
                                 | Inr pid \<Rightarrow> (Inr (Some pid), w2))
                              else (Inr None, w2))
                           else onboard_loop L token tier_id onboard_request n
                                  (sleep_for ONBOARD_SLEEP_SECONDS w2))))))"

definition onboard_for_project ::
  "library \<Rightarrow> string \<Rightarrow> string \<Rightarrow> string \<Rightarrow> Backend \<Rightarrow> world \<Rightarrow>
     (error + string) \<times> Backend \<times> world" where
  "onboard_for_project L token env_project_id tier_id b w =
     (case onboard_loop L token tier_id (onboard_request_of env_project_id tier_id)
             ONBOARD_MAX_RETRIES w of
        (Inl e, w1) \<Rightarrow> (Inl e, b, w1)
      | (Inr (Some pid), w1) \<Rightarrow> (Inr pid, b\<lparr>project_id := pid\<rparr>, w1)
      | (Inr None, w1) \<Rightarrow>
         if tier_id = ''free-tier'' then (Inr [], b\<lparr>project_id := []\<rparr>, w1)
         else (Inl (OnboardingError ''Failed to complete onboarding'' tier_id), b, w1))"

text \<open>The search for the default tier, ended by \<open>break\<close> at the first one.\<close>

fun find_default_tier :: "json list \<Rightarrow> error + string option" where
  "find_default_tier [] = Inr None"
| "find_default_tier (tier # rest) =
     (case value_bool tier ''isDefault'' False of
        Inl e \<Rightarrow> Inl e
      | Inr is_default \<Rightarrow>
         if is_default then
           (case value_string tier ''id'' ''free-tier'' of
              Inl e \<Rightarrow> Inl e
            | Inr i \<Rightarrow> Inr (Some i))
         else find_default_tier rest)"

definition tier_to_onboard :: "json \<Rightarrow> error + string" where
  "tier_to_onboard d =
     (if contains d ''allowedTiers'' \<and> is_array (member_at d ''allowedTiers'') then
        (case find_default_tier (json_items (member_at d ''allowedTiers'')) of
           Inl e \<Rightarrow> Inl e
         | Inr None \<Rightarrow> Inr ''free-tier''
         | Inr (Some t) \<Rightarrow> Inr t)
      else Inr ''free-tier'')"

definition ensure_project_id ::
  "library \<Rightarrow> string \<Rightarrow> Backend \<Rightarrow> world \<Rightarrow> (error + string) \<times> Backend \<times> world" where
  "ensure_project_id L token b w =
     (if project_id b \<noteq> [] then (Inr (project_id b), b, w)
      else
        (let env_project_id = get_project_id (oauth_manager b) w;
             load_request =
               JObject [(''cloudaicompanionProject'',
                           if env_project_id = [] then JNull else JString env_project_id),
                        (''metadata'', client_metadata env_project_id)]
         in case curl_easy_init w of
              (None, w1) \<Rightarrow> (Inl (ConnectionError ''Failed to initialize CURL''), b, w1)
            | (Some r, w1) \<Rightarrow>
               (case dump L (- 1) load_request of
                  Inl e \<Rightarrow> (Inl e, b, w1)
                | Inr request_body \<Rightarrow>
                   (let w2 = curl_easy_perform
                               \<lparr>url = get_api_endpoint @ '':loadCodeAssist'',
                                headers = api_headers token,
                                post_fields = request_body\<rparr> w1;
                        response = concat (chunks r)
                    in if res r \<noteq> CURLE_OK \<or> http_code r \<noteq> 200 then
                         (Inl (APIError (''Gemini Code Assist access denied: '' @ response)
                                 (http_code r)), b, w2)
                       else
                         (case parse L response of
                            Inl e \<Rightarrow> (Inl e, b, w2)
                          | Inr d \<Rightarrow>
                             if contains d ''currentTier'' then
                               (case value_string d ''cloudaicompanionProject'' env_project_id of
                                  Inl e \<Rightarrow> (Inl e, b, w2)
                                | Inr pid \<Rightarrow> (Inr pid, b\<lparr>project_id := pid\<rparr>, w2))
                             else
                               (case tier_to_onboard d of
                                  Inl e \<Rightarrow> (Inl e, b, w2)
                                | Inr tier_id \<Rightarrow>
                                   onboard_for_project L token env_project_id tier_id b w2))))))"

subsection \<open>\<open>complete\<close>\<close>

text \<open>
  \<open>complete_with_retry\<close>. The test for a retry comes before the test of the transfer's
  result code, as in the source. The recursive call is made only when \<open>retry_count\<close>
  is 0, and with \<open>retry_count\<close> 1.
\<close>

function complete_with_retry ::
  "library \<Rightarrow> string \<Rightarrow> Message list \<Rightarrow> GenerationConfig option \<Rightarrow> ThinkingConfig option \<Rightarrow>
     Tool list \<Rightarrow> int \<Rightarrow> Backend \<Rightarrow> world \<Rightarrow> (error + LLMChunk) \<times> Backend \<times> world" where
  "complete_with_retry L model_name messages generation_config thinking_config tools retry_count b w =
     (case get_auth_headers L (retry_count > 0) (oauth_manager b) w of
        (Inl e, om1, w1) \<Rightarrow> (Inl e, b\<lparr>oauth_manager := om1\<rparr>, w1)
      | (Inr hs, om1, w1) \<Rightarrow>
         (case ensure_project_id L (bearer_token hs) (b\<lparr>oauth_manager := om1\<rparr>) w1 of
            (Inl e, b2, w2) \<Rightarrow> (Inl e, b2, w2)
          | (Inr pid, b2, w2) \<Rightarrow>
             (case build_request_payload model_name messages generation_config thinking_config
                     tools pid of
                Inl e \<Rightarrow> (Inl e, b2, w2)
              | Inr payload \<Rightarrow>
                 (case curl_easy_init w2 of
                    (None, w3) \<Rightarrow> (Inl (ConnectionError ''Failed to initialize CURL''), b2, w3)
                  | (Some r, w3) \<Rightarrow>
                     (case dump L (- 1) payload of
                        Inl e \<Rightarrow> (Inl e, b2, w3)
                      | Inr request_body \<Rightarrow>
                         (let w4 = curl_easy_perform
                                     \<lparr>url = get_api_endpoint @ '':generateContent'',
                                      headers = header_lines hs,
                                      post_fields = request_body\<rparr> w3;
                              response = concat (chunks r)
                          in if (http_code r = 401 \<or> http_code r = 403) \<and> retry_count = 0 then
                               complete_with_retry L model_name messages generation_config
                                 thinking_config tools 1
                                 (b2\<lparr>oauth_manager := invalidate_credentials (oauth_manager b2)\<rparr>) w4
                             else
                               (case res r of
                                  CURLE_FAILED msg \<Rightarrow>
                                    (Inl (ConnectionError (''CURL error: '' @ msg)), b2, w4)
                                | CURLE_OK \<Rightarrow>
                                   if http_code r \<noteq> 200 then
                                     (Inl (handle_http_error L (http_code r) response), b2, w4)
                                   else
                                     (case parse L response of
                                        Inl e \<Rightarrow> (Inl e, b2, w4)
                                      | Inr d \<Rightarrow>
                                         (case parse_completion_response L d w4 of
                                            (Inl e, w5) \<Rightarrow> (Inl e, b2, w5)
                                          | (Inr chunk, w5) \<Rightarrow> (Inr chunk, b2, w5))))))))))"
  by pat_completeness auto
termination
  by (relation "measure (\<lambda>(L, m, ms, g, t, ts, retry_count, b, w). if retry_count = 0 then 1 else 0)")
    auto

declare complete_with_retry.simps [simp del]

definition complete ::
  "library \<Rightarrow> string \<Rightarrow> Message list \<Rightarrow> GenerationConfig option \<Rightarrow> ThinkingConfig option \<Rightarrow>
     Tool list \<Rightarrow> Backend \<Rightarrow> world \<Rightarrow> (error + LLMChunk) \<times> Backend \<times> world" where
  "complete L model_name messages generation_config thinking_config tools b w =
     complete_with_retry L model_name messages generation_config thinking_config tools 0 b w"

subsection \<open>\<open>complete_streaming\<close>\<close>

text \<open>
  The stream callback of the caller captures variables by reference; in the model it is a
  function that takes the chunk, the captured state and the world, and returns the new
  state and world. Exceptions of the callback are not modelled (the write callback would
  swallow them with the \<open>catch (...)\<close> that swallows malformed frames).
\<close>

type_synonym 's StreamCallback = "LLMChunk \<Rightarrow> 's \<Rightarrow> world \<Rightarrow> 's \<times> world"

text \<open>Removing trailing carriage returns and line feeds from a line.\<close>

definition trim_line :: "string \<Rightarrow> string" where
  "trim_line line = rev (dropWhile (\<lambda>c. c = CR \<or> c = LF) (rev line))"

text \<open>
  Removing leading blanks and tabs from the payload; a payload of blanks and tabs only is
  left as it is (\<open>find_first_not_of\<close> finds nothing).
\<close>

definition strip_leading :: "string \<Rightarrow> string" where
  "strip_leading d =
     (let rest = dropWhile (\<lambda>c. c = CHR '' '' \<or> c = TAB) d in if rest = [] then d else rest)"

text \<open>The chunk of a parsed frame: the parts of the first candidate, nothing else.\<close>

definition stream_chunk :: "json \<Rightarrow> world \<Rightarrow> (error + LLMChunk) \<times> world" where
  "stream_chunk parsed w =
     (let response_data = response_data_of parsed in
      if has_candidates response_data then
        (case parse_candidate response_data w of
           (Inl e, w1) \<Rightarrow> (Inl e, w1)
         | (Inr (candidate, chunk), w1) \<Rightarrow> (Inr chunk, w1))
      else (Inr empty_chunk, w))"

text \<open>
  What the write callback does with one complete line. An exception while the payload is
  parsed and reduced is swallowed: the callback is not called for that line.
\<close>

definition process_line :: "library \<Rightarrow> 's StreamCallback \<Rightarrow> string \<Rightarrow> 's \<Rightarrow> world \<Rightarrow> 's \<times> world" where
  "process_line L cb raw s w =
     (let line = trim_line raw in
      if line = [] \<or> hd line = CHR '':'' then (s, w)
      else if take 5 line = ''data:'' then
        (let d = strip_leading (drop 5 line) in
         if d = ''[DONE]'' then (s, w)
         else
           (case parse L d of
              Inl e \<Rightarrow> (s, w)
            | Inr parsed \<Rightarrow>
               (case stream_chunk parsed w of
                  (Inl e, w1) \<Rightarrow> (s, w1)
                | (Inr chunk, w1) \<Rightarrow> cb chunk s w1)))
      else (s, w))"

text \<open>The \<open>while\<close> loop of the write callback: complete lines leave the buffer.\<close>

function drain_lines ::
  "library \<Rightarrow> 's StreamCallback \<Rightarrow> string \<Rightarrow> 's \<Rightarrow> world \<Rightarrow> string \<times> 's \<times> world" where
  "drain_lines L cb buf s w =
     (if LF \<in> set buf then
        (let line = takeWhile (\<lambda>c. c \<noteq> LF) buf;
             rest = drop (Suc (length line)) buf
         in case process_line L cb line s w of
              (s1, w1) \<Rightarrow> drain_lines L cb rest s1 w1)
      else (buf, s, w))"
  by pat_completeness auto
termination
  by (relation "measure (\<lambda>(L, cb, buf, s, w). length buf)")
    (auto intro!: diff_Suc_less length_pos_if_in_set)

declare drain_lines.simps [simp del]

text \<open>The write callback, called once for each piece of the body that arrives.\<close>

definition stream_write ::
  "library \<Rightarrow> 's StreamCallback \<Rightarrow> string \<Rightarrow> string \<Rightarrow> 's \<Rightarrow> world \<Rightarrow> string \<times> 's \<times> world" where
  "stream_write L cb contents buf s w = drain_lines L cb (buf @ contents) s w"

fun receive_body ::
  "library \<Rightarrow> 's StreamCallback \<Rightarrow> string list \<Rightarrow> string \<Rightarrow> 's \<Rightarrow> world \<Rightarrow> string \<times> 's \<times> world" where
  "receive_body L cb [] buf s w = (buf, s, w)"
| "receive_body L cb (contents # later) buf s w =
     (case stream_write L cb contents buf s w of
        (buf1, s1, w1) \<Rightarrow> receive_body L cb later buf1 s1 w1)"

text \<open>
  \<open>complete_streaming_with_retry\<close>. The body of the answer goes through the write
  callback whatever the status is; the buffer starts empty in each attempt, and what is
  left in it is the body \<open>handle_http_error\<close> sees.
\<close>

function complete_streaming_with_retry ::
  "library \<Rightarrow> string \<Rightarrow> Message list \<Rightarrow> 's StreamCallback \<Rightarrow> GenerationConfig option \<Rightarrow>
     ThinkingConfig option \<Rightarrow> Tool list \<Rightarrow> int \<Rightarrow> 's \<Rightarrow> Backend \<Rightarrow> world \<Rightarrow>
     (error + unit) \<times> 's \<times> Backend \<times> world" where
  "complete_streaming_with_retry L model_name messages cb generation_config thinking_config tools
       retry_count s b w =
     (case get_auth_headers L (retry_count > 0) (oauth_manager b) w of
        (Inl e, om1, w1) \<Rightarrow> (Inl e, s, b\<lparr>oauth_manager := om1\<rparr>, w1)
      | (Inr hs, om1, w1) \<Rightarrow>
         (case ensure_project_id L (bearer_token hs) (b\<lparr>oauth_manager := om1\<rparr>) w1 of
            (Inl e, b2, w2) \<Rightarrow> (Inl e, s, b2, w2)
          | (Inr pid, b2, w2) \<Rightarrow>
             (case build_request_payload model_name messages generation_config thinking_config
                     tools pid of
                Inl e \<Rightarrow> (Inl e, s, b2, w2)
              | Inr payload \<Rightarrow>
                 (case curl_easy_init w2 of
                    (None, w3) \<Rightarrow> (Inl (ConnectionError ''Failed to initialize CURL''), s, b2, w3)
                  | (Some r, w3) \<Rightarrow>
                     (case dump L (- 1) payload of
                        Inl e \<Rightarrow> (Inl e, s, b2, w3)
                      | Inr request_body \<Rightarrow>
                         (case receive_body L cb (chunks r) [] s
                                 (curl_easy_perform
                                    \<lparr>url = get_api_endpoint @ '':streamGenerateContent?alt=sse'',
                                     headers = header_lines hs,
                                     post_fields = request_body\<rparr> w3) of
                            (buffer, s4, w4) \<Rightarrow>
                              if (http_code r = 401 \<or> http_code r = 403) \<and> retry_count = 0 then
                                complete_streaming_with_retry L model_name messages cb
                                  generation_config thinking_config tools 1 s4
                                  (b2\<lparr>oauth_manager := invalidate_credentials (oauth_manager b2)\<rparr>) w4
                              else
                                (case res r of
                                   CURLE_FAILED msg \<Rightarrow>
                                     (Inl (ConnectionError (''CURL error: '' @ msg)), s4, b2, w4)
                                 | CURLE_OK \<Rightarrow>
                                    if http_code r \<noteq> 200 then
                                      (Inl (handle_http_error L (http_code r) buffer), s4, b2, w4)
                                    else (Inr (), s4, b2, w4))))))))"
  by pat_completeness auto
termination
  by (relation "measure (\<lambda>(L, m, ms, cb, g, t, ts, retry_count, s, b, w). if retry_count = 0 then 1 else 0)")
    auto

declare complete_streaming_with_retry.simps [simp del]

definition complete_streaming ::
  "library \<Rightarrow> string \<Rightarrow> Message list \<Rightarrow> 's StreamCallback \<Rightarrow> GenerationConfig option \<Rightarrow>
     ThinkingConfig option \<Rightarrow> Tool list \<Rightarrow> 's \<Rightarrow> Backend \<Rightarrow> world \<Rightarrow>
     (error + unit) \<times> 's \<times> Backend \<times> world" where
  "complete_streaming L model_name messages cb generation_config thinking_config tools s b w =
     complete_streaming_with_retry L model_name messages cb generation_config thinking_config
       tools 0 s b w"

section \<open>Session (session.cpp)\<close>

text \<open>
  A tool handler is a function of the invocation that returns a result or throws an
  exception derived from \<open>std::exception\<close>, given by its \<open>what()\<close>; a handler
  that throws anything else, or that calls back into the session, is not modelled. An
  event handler is known by an identifier; it records the event it is called with and
  returns. The calls of event handlers made so far are a list of deliveries, threaded
  through the operations of the session. A time point is the reading of the system clock.
\<close>

datatype handler_outcome = Returns ToolResult | Throws string

type_synonym ToolHandler = "ToolInvocation \<Rightarrow> handler_outcome"

type_synonym EventHandler = nat

type_synonym delivery = "EventHandler \<times> SessionEvent"

definition QUOTE :: char where
  "QUOTE = CHR 0x27"

definition system_clock_now :: "world \<Rightarrow> int64 \<times> world" where
  "system_clock_now w = (clock w (clock_reads w), w\<lparr>clock_reads := Suc (clock_reads w)\<rparr>)"

text \<open>
  \<open>what()\<close> of an exception: the message its constructor hands to
  \<open>std::runtime_error\<close>, and the library's text for an exception of the JSON library.
\<close>

fun what :: "library \<Rightarrow> error \<Rightarrow> string" where
  "what L (CredentialsNotFoundError credential_path) = ''Credentials not found at '' @ credential_path"
| "what L (TokenRefreshError message status_code response_body) = message"
| "what L (ConnectionError message) = message"
| "what L (APIError message status_code) = message"
| "what L (RateLimitError message) = message"
| "what L (QuotaExceededError message reset_time) = message"
| "what L (PermissionDeniedError message) = message"
| "what L (NotFoundError message resource) = message"
| "what L (SessionClosedError sid) = ''Session is closed''"
| "what L (OnboardingError message tier_id) = message"
| "what L (JsonParseError t) = json_what L (JsonParseError t)"
| "what L (JsonTypeError n j) = json_what L (JsonTypeError n j)"

record Session =
  session_id :: string
  model :: string
  backend :: Backend
  tools :: "Tool list"
  system_message :: "string option"
  generation_config :: "GenerationConfig option"
  thinking_config :: "ThinkingConfig option"
  streaming :: bool
  closed :: bool
  start_time :: int64
  modified_time :: int64
  messages :: "Message list"
  tool_handlers :: "string \<Rightarrow> ToolHandler option"
  event_handlers :: "EventHandler list"

text \<open>The constructor, \<open>register_tool_handler\<close>, \<open>on\<close> and \<open>destroy\<close>.\<close>

definition new_Session ::
  "string \<Rightarrow> string \<Rightarrow> Backend \<Rightarrow> Tool list \<Rightarrow> string option \<Rightarrow> GenerationConfig option \<Rightarrow>
     ThinkingConfig option \<Rightarrow> bool \<Rightarrow> world \<Rightarrow> Session \<times> world" where
  "new_Session sid model_name b tool_list sys_message gen_config think_config stream w =
     (let (t0, w1) = system_clock_now w;
          (t1, w2) = system_clock_now w1
      in (\<lparr>session_id = sid, model = model_name, backend = b, tools = tool_list,
           system_message = sys_message, generation_config = gen_config,
           thinking_config = think_config, streaming = stream, closed = False,
           start_time = t0, modified_time = t1,
           messages = (case sys_message of None \<Rightarrow> [] | Some m \<Rightarrow> [new_Message System m]),
           tool_handlers = Map.empty, event_handlers = []\<rparr>, w2))"




text \<open>\<open>emit\<close>: the event goes to every registered handler, in the order of registration.\<close>

definition emit :: "Session \<Rightarrow> EventType \<Rightarrow> json \<Rightarrow> delivery list \<Rightarrow> delivery list" where
  "emit sess et d delivered =
     delivered @
       map (\<lambda>handler. (handler, \<lparr>event_type = et, data = d, ev_session_id = session_id sess\<rparr>))
         (event_handlers sess)"

subsection \<open>\<open>handle_tool_calls\<close>\<close>

text \<open>The message a tool call leaves in the transcript, and the invocation a handler gets.\<close>

definition tool_message :: "string \<Rightarrow> string \<Rightarrow> string \<Rightarrow> Message" where
  "tool_message nm c cid =
     \<lparr>role = User, content = c, parts = [], name = Some nm, tool_calls = [], tool_call_id = Some cid\<rparr>"

definition invocation_of :: "ToolCall \<Rightarrow> ToolInvocation" where
  "invocation_of tc =
     \<lparr>inv_name = fn_name (tc_function tc),
      inv_arguments =
        (case fn_arguments (tc_function tc) of
           JObject kvs \<Rightarrow> fold (\<lambda>(k, v) m. m(k \<mapsto> v)) kvs Map.empty
         | _ \<Rightarrow> Map.empty),
      call_id = tc_id tc\<rparr>"

fun handle_tool_calls ::
  "ToolCall list \<Rightarrow> Session \<Rightarrow> delivery list \<Rightarrow> world \<Rightarrow> Session \<times> delivery list \<times> world" where
  "handle_tool_calls [] sess delivered w = (sess, delivered, w)"
| "handle_tool_calls (tc # rest) sess delivered w =
     (let nm = fn_name (tc_function tc);
          delivered1 =
            emit sess ToolCallEvent
              (JObject [(''name'', JString nm),
                        (''arguments'', fn_arguments (tc_function tc)),
                        (''callId'', JString (tc_id tc))]) delivered
      in case tool_handlers sess nm of
           None \<Rightarrow>
             handle_tool_calls rest
               (sess\<lparr>messages := messages sess @
                  [tool_message nm (''Error: Tool '' @ QUOTE # nm @ QUOTE # '' not found'') (tc_id tc)]\<rparr>)
               delivered1
               (w\<lparr>cerr := cerr w @ [''Warning: No handler for tool: '' @ nm]\<rparr>)
         | Some handler \<Rightarrow>
            (case handler (invocation_of tc) of
               Returns result \<Rightarrow>
                 (let result_text =
                        (case text_result_for_llm result of None \<Rightarrow> ''Success'' | Some t \<Rightarrow> t)
                  in handle_tool_calls rest
                       (sess\<lparr>messages := messages sess @ [tool_message nm result_text (tc_id tc)]\<rparr>)
                       (emit sess ToolResultEvent
                          (JObject [(''name'', JString nm),
                                    (''callId'', JString (tc_id tc)),
                                    (''result'', JString result_text)]) delivered1)
                       w)
             | Throws e_what \<Rightarrow>
                 (let error_msg_str =
                        ''Error executing tool '' @ QUOTE # nm @ QUOTE # '': '' @ e_what
                  in handle_tool_calls rest
                       (sess\<lparr>messages := messages sess @ [tool_message nm error_msg_str (tc_id tc)]\<rparr>)
                       (emit sess ToolResultEvent
                          (JObject [(''name'', JString nm),
                                    (''callId'', JString (tc_id tc)),
                                    (''error'', JString error_msg_str)]) delivered1)
                       (w\<lparr>cerr := cerr w @ [error_msg_str]\<rparr>))))"

subsection \<open>\<open>get_response\<close> and \<open>stream_response\<close>\<close>

text \<open>The data of the \<open>AssistantMessage\<close> event.\<close>

definition tool_calls_json :: "ToolCall list \<Rightarrow> json" where
  "tool_calls_json tcs =
     JArray (map (\<lambda>tc. JObject [(''id'', JString (tc_id tc)),
                                (''type'', JString (tc_type tc)),
                                (''function'',
                                   JObject [(''name'', JString (fn_name (tc_function tc))),
                                            (''arguments'', fn_arguments (tc_function tc))])]) tcs)"

definition usage_json :: "LLMUsage \<Rightarrow> json" where
  "usage_json u =
     JObject [(''promptTokens'', JInt (prompt_tokens u)),
              (''completionTokens'', JInt (completion_tokens u)),
              (''totalTokens'', JInt (total_tokens u))]"

definition message_data :: "string \<Rightarrow> ToolCall list \<Rightarrow> LLMUsage option \<Rightarrow> json" where
  "message_data c tcs us =
     (let msg_data = JObject [(''content'', JString c)];
          msg_data1 = (if tcs \<noteq> [] then set_member msg_data ''toolCalls'' (tool_calls_json tcs)
                       else msg_data)
      in case us of
           None \<Rightarrow> msg_data1
         | Some u \<Rightarrow> set_member msg_data1 ''usage'' (usage_json u))"

definition get_response ::
  "library \<Rightarrow> Session \<Rightarrow> delivery list \<Rightarrow> world \<Rightarrow>
     (error + unit) \<times> Session \<times> delivery list \<times> world" where
  "get_response L sess delivered w =
     (let msgs = messages sess;
          current_tools = tools sess
      in case complete L (model sess) msgs (generation_config sess) (thinking_config sess)
                current_tools (backend sess) w of
           (Inl e, b1, w1) \<Rightarrow> (Inl e, sess\<lparr>backend := b1\<rparr>, delivered, w1)
         | (Inr chunk, b1, w1) \<Rightarrow>
            (case (if chunk_tool_calls chunk \<noteq> []
                   then handle_tool_calls (chunk_tool_calls chunk) (sess\<lparr>backend := b1\<rparr>) delivered w1
                   else (sess\<lparr>backend := b1\<rparr>, delivered, w1)) of
               (sess2, delivered2, w2) \<Rightarrow>
                 (let assistant_message =
                        (new_Message Assistant (chunk_content chunk))
                          \<lparr>tool_calls := chunk_tool_calls chunk\<rparr>;
                      sess3 = sess2\<lparr>messages := messages sess2 @ [assistant_message]\<rparr>;
                      delivered3 =
                        (case reasoning_content chunk of
                           None \<Rightarrow> delivered2
                         | Some r \<Rightarrow>
                            emit sess3 AssistantReasoning (JObject [(''content'', JString r)])
                              delivered2);
                      delivered4 =
                        emit sess3 AssistantMessage
                          (message_data (chunk_content chunk) (chunk_tool_calls chunk) (usage chunk))
                          delivered3
                  in (Inr (), sess3, emit sess3 SessionIdle JNull delivered4, w2))))"

text \<open>
  What the stream callback of \<open>stream_response\<close> captures by reference: the four
  accumulators. With the deliveries they are the state of the callback.
\<close>

record stream_acc =
  full_content :: string
  full_reasoning :: string
  all_tool_calls :: "ToolCall list"
  final_usage :: "LLMUsage option"

definition empty_acc :: stream_acc where
  "empty_acc = \<lparr>full_content = [], full_reasoning = [], all_tool_calls = [], final_usage = None\<rparr>"

definition on_chunk :: "Session \<Rightarrow> (stream_acc \<times> delivery list) StreamCallback" where
  "on_chunk sess chunk s w =
     (case s of (acc, delivered) \<Rightarrow>
        (let (acc1, delivered1) =
               (if chunk_content chunk \<noteq> [] then
                  (let c = full_content acc @ chunk_content chunk
                   in (acc\<lparr>full_content := c\<rparr>,
                       emit sess AssistantMessageDelta
                         (JObject [(''deltaContent'', JString (chunk_content chunk)),
                                   (''content'', JString c)]) delivered))
                else (acc, delivered));
             (acc2, delivered2) =
               (case reasoning_content chunk of
                  None \<Rightarrow> (acc1, delivered1)
                | Some r \<Rightarrow>
                   (let c = full_reasoning acc1 @ r
                    in (acc1\<lparr>full_reasoning := c\<rparr>,
                        emit sess AssistantReasoningDelta
                          (JObject [(''deltaContent'', JString r), (''content'', JString c)])
                          delivered1)));
             acc3 = acc2\<lparr>all_tool_calls := all_tool_calls acc2 @ chunk_tool_calls chunk\<rparr>;
             acc4 = (case usage chunk of None \<Rightarrow> acc3 | Some u \<Rightarrow> acc3\<lparr>final_usage := Some u\<rparr>)
         in ((acc4, delivered2), w)))"

definition stream_response ::
  "library \<Rightarrow> Session \<Rightarrow> delivery list \<Rightarrow> world \<Rightarrow>
     (error + unit) \<times> Session \<times> delivery list \<times> world" where
  "stream_response L sess delivered w =
     (let msgs = messages sess;
          current_tools = tools sess
      in case complete_streaming L (model sess) msgs (on_chunk sess) (generation_config sess)
                (thinking_config sess) current_tools (empty_acc, delivered) (backend sess) w of
           (Inl e, (acc, delivered1), b1, w1) \<Rightarrow> (Inl e, sess\<lparr>backend := b1\<rparr>, delivered1, w1)
         | (Inr u, (acc, delivered1), b1, w1) \<Rightarrow>
            (case (if all_tool_calls acc \<noteq> []
                   then handle_tool_calls (all_tool_calls acc) (sess\<lparr>backend := b1\<rparr>) delivered1 w1
                   else (sess\<lparr>backend := b1\<rparr>, delivered1, w1)) of
               (sess2, delivered2, w2) \<Rightarrow>
                 (let assistant_message =
                        (new_Message Assistant (full_content acc))
                          \<lparr>tool_calls := all_tool_calls acc\<rparr>;
                      sess3 = sess2\<lparr>messages := messages sess2 @ [assistant_message]\<rparr>;
                      delivered3 =
                        (if full_reasoning acc \<noteq> [] then
                           emit sess3 AssistantReasoning
                             (JObject [(''content'', JString (full_reasoning acc))]) delivered2
                         else delivered2);
                      delivered4 =
                        emit sess3 AssistantMessage
                          (message_data (full_content acc) (all_tool_calls acc) (final_usage acc))
                          delivered3
                  in (Inr (), sess3, emit sess3 SessionIdle JNull delivered4, w2))))"

subsection \<open>\<open>send\<close>\<close>

text \<open>
  A closed session throws before the \<open>try\<close> block: no event is emitted. An exception of
  the turn is reported by a \<open>SessionError\<close> event and thrown again.
\<close>

definition send ::
  "library \<Rightarrow> MessageOptions \<Rightarrow> Session \<Rightarrow> delivery list \<Rightarrow> world \<Rightarrow>
     (error + unit) \<times> Session \<times> delivery list \<times> world" where
  "send L opts sess delivered w =
     (if closed sess then (Inl (SessionClosedError (session_id sess)), sess, delivered, w)
      else
        (let c = (case opt_context opts of
                    None \<Rightarrow> prompt opts
                  | Some ctx \<Rightarrow> ctx @ [LF, LF] @ prompt opts);
             user_message = new_Message User c;
             (now, w1) = system_clock_now w;
             sess1 = sess\<lparr>messages := messages sess @ [user_message], modified_time := now\<rparr>
         in case (if streaming sess1 then stream_response L sess1 delivered w1
                  else get_response L sess1 delivered w1) of
              (Inl e, sess2, delivered2, w2) \<Rightarrow>
                (Inl e, sess2,
                 emit sess2 SessionError (JObject [(''error'', JString (what L e))]) delivered2, w2)
            | (Inr u, sess2, delivered2, w2) \<Rightarrow> (Inr (), sess2, delivered2, w2)))"

section \<open>Notions of the specification\<close>

text \<open>
  The role mapping as the specification words it, and a message that carries nothing:
  empty content, no parts, no tool calls and no tool-call id.
\<close>

definition provider_role :: "Role \<Rightarrow> string" where
  "provider_role r = (case r of User \<Rightarrow> ''user'' | Assistant \<Rightarrow> ''model'' | System \<Rightarrow> ''user'')"

definition is_blank :: "Message \<Rightarrow> bool" where
  "is_blank msg =
     (content msg = [] \<and> parts msg = [] \<and> tool_calls msg = [] \<and> tool_call_id msg = None)"

text \<open>
  An answer of the onboarding endpoint that is still pending: the transfer succeeded with
  status 200 and a JSON object whose \<open>done\<close> member is false or absent.
\<close>

definition pending :: "library \<Rightarrow> curl_outcome \<Rightarrow> bool" where
  "pending L outcome =
     (case outcome of
        InitFailed \<Rightarrow> False
      | Transfer r \<Rightarrow>
          res r = CURLE_OK \<and> http_code r = 200 \<and>
          (case json_parse L (concat (chunks r)) of
             None \<Rightarrow> False
           | Some lro_data \<Rightarrow> value_bool lro_data ''done'' False = Inr False))"

text \<open>
  The requests sent so far to the completion endpoint, and those sent to the token
  endpoint.
\<close>

definition completion_requests :: "world \<Rightarrow> http_request list" where
  "completion_requests w =
     filter (\<lambda>rq. url rq = get_api_endpoint @ '':generateContent'') (requests w)"

definition token_requests :: "world \<Rightarrow> http_request list" where
  "token_requests w = filter (\<lambda>rq. url rq = GEMINI_OAUTH_TOKEN_ENDPOINT) (requests w)"



text \<open>
  The types of the events one handler has received, in order; the delta events; and the
  events the tool calls of a turn produce in the code: a \<open>ToolCall\<close> event for each
  call, followed by a \<open>ToolResult\<close> event when a handler is registered for its name.
\<close>

definition events_seen :: "EventHandler \<Rightarrow> delivery list \<Rightarrow> EventType list" where
  "events_seen h delivered = map (\<lambda>d. event_type (snd d)) (filter (\<lambda>d. fst d = h) delivered)"


fun tool_events :: "(string \<Rightarrow> ToolHandler option) \<Rightarrow> ToolCall list \<Rightarrow> EventType list" where
  "tool_events handlers [] = []"
| "tool_events handlers (tc # rest) =
     (case handlers (fn_name (tc_function tc)) of
        None \<Rightarrow> [ToolCallEvent]
      | Some handler \<Rightarrow> [ToolCallEvent, ToolResultEvent]) @ tool_events handlers rest"








text \<open>
  The message the code appends for a tool call without a handler, and the text the
  specification gives for it.
\<close>

definition missing_handler_message :: "ToolCall \<Rightarrow> Message" where
  "missing_handler_message tc =
     \<lparr>role = User,
      content = ''Error: Tool '' @ QUOTE # fn_name (tc_function tc) @ QUOTE # '' not found'',
      parts = [], name = Some (fn_name (tc_function tc)), tool_calls = [],
      tool_call_id = Some (tc_id tc)\<rparr>"

definition claimed_failure_text :: "string \<Rightarrow> string" where
  "claimed_failure_text nm = ''Tool '' @ QUOTE # nm @ QUOTE # '' not found''"

section \<open>Concrete instances\<close>

text \<open>
  Instances of the library and of the environment on which the model is evaluated:
  a parser given by a table, a printer given as a function, a clock that stands still,
  a network that answers from a list (and gives no handle after it), a file system given
  by a table in which every path can be written, an empty process environment.
\<close>

definition example_library :: "(string \<times> json) list \<Rightarrow> (json \<Rightarrow> string option) \<Rightarrow> library" where
  "example_library parses printer =
     \<lparr>json_parse = map_of parses,
      json_dump = (\<lambda>indent. printer),
      json_what = (\<lambda>e. ''json exception''),
      double_to_int64 = (\<lambda>d. 0),
      double_to_int = (\<lambda>d. 0),
      curl_easy_escape = (\<lambda>s. s)\<rparr>"

definition example_world :: "int64 \<Rightarrow> curl_outcome list \<Rightarrow> (string \<times> string) list \<Rightarrow> world" where
  "example_world now answers fs =
     \<lparr>clock = (\<lambda>n. now),
      clock_reads = 0,
      network = (\<lambda>n. if n < length answers then answers ! n else InitFailed),
      curl_handles = 0,
      requests = [],
      files = map_of fs,
      can_write = (\<lambda>p. True),
      getenv = (\<lambda>v. None),
      pw_dir = None,
      uuid_source = (\<lambda>n. replicate (Suc n) (CHR ''u'')),
      uuids_drawn = 0,
      slept_seconds = 0,
      cerr = []\<rparr>"

definition example_manager :: "GeminiOAuthCredentials option \<Rightarrow> OAuthManager" where
  "example_manager cached =
     \<lparr>oauth_path = Some ''oauth_creds.json'',
      client_id = ''client'',
      client_secret = ''secret'',
      credentials = cached,
      om_project_id = []\<rparr>"

definition ok_response :: "string list \<Rightarrow> curl_outcome" where
  "ok_response body = Transfer \<lparr>res = CURLE_OK, http_code = 200, chunks = body\<rparr>"

definition status_response :: "int \<Rightarrow> string list \<Rightarrow> curl_outcome" where
  "status_response code body = Transfer \<lparr>res = CURLE_OK, http_code = code, chunks = body\<rparr>"

text \<open>
  Credentials: one whose expiry date is the value 0 of a missing member, one that expired
  long before the clock readings used below, and one without a refresh token. An answer
  of the token endpoint and its parsed form.
\<close>

definition zero_expiry_credentials :: GeminiOAuthCredentials where
  "zero_expiry_credentials =
     \<lparr>access_token = ''old'', refresh_token = ''refresh'', token_type = ''Bearer'', expiry_date = 0\<rparr>"

definition stale_credentials :: GeminiOAuthCredentials where
  "stale_credentials =
     \<lparr>access_token = ''old'', refresh_token = ''refresh'', token_type = ''Bearer'', expiry_date = 1000\<rparr>"

definition no_refresh_credentials :: GeminiOAuthCredentials where
  "no_refresh_credentials =
     \<lparr>access_token = ''old'', refresh_token = [], token_type = ''Bearer'', expiry_date = 1000\<rparr>"

definition fresh_credentials :: GeminiOAuthCredentials where
  "fresh_credentials =
     \<lparr>access_token = ''old'', refresh_token = ''refresh'', token_type = ''Bearer'',
      expiry_date = 9000000\<rparr>"

definition token_answer :: json where
  "token_answer = JObject [(''access_token'', JString ''new''), (''expires_in'', JInt 3600)]"

definition token_library :: library where
  "token_library = example_library [(''TOKEN'', token_answer)] (\<lambda>j. Some ''saved'')"

definition token_world :: "int64 \<Rightarrow> world" where
  "token_world now = example_world now [ok_response [''TOKEN'']] []"

definition example_backend :: "GeminiOAuthCredentials option \<Rightarrow> string \<Rightarrow> Backend" where
  "example_backend cached pid =
     \<lparr>timeout = 0, oauth_manager = example_manager cached, project_id = pid\<rparr>"


text \<open>
  Answers of the discovery and onboarding endpoints: an account with a tier and a project,
  an account without a tier, an operation that is pending, and one that is done without
  a project. A world in which every answer is the pending one.
\<close>

definition project_library :: library where
  "project_library =
     example_library
       [(''TIER'', JObject [(''currentTier'', JObject [(''id'', JString ''standard-tier'')]),
                            (''cloudaicompanionProject'', JString ''project-1'')]),
        (''NO TIER'', JObject []),
        (''PENDING'', JObject [(''done'', JBool False)]),
        (''DONE'', JObject [(''done'', JBool True)])]
       (\<lambda>j. Some ''request'')"

definition polling_world :: world where
  "polling_world = (example_world 0 [] [])\<lparr>network := (\<lambda>n. ok_response [''PENDING''])\<rparr>"

definition free_tier_world :: world where
  "free_tier_world =
     example_world 0
       [ok_response [''NO TIER''], ok_response [''DONE''],
        ok_response [''NO TIER''], ok_response [''DONE'']] []"

text \<open>
  A credential file, the library that reads it, and a completion endpoint that answers
  401 twice, with the token endpoint answering in between.
\<close>

definition retry_library :: library where
  "retry_library =
     example_library
       [(''TOKEN'', token_answer),
        (''CREDENTIALS'', to_json fresh_credentials)]
       (\<lambda>j. Some ''body'')"

definition retry_world :: world where
  "retry_world =
     example_world 2000000
       [status_response 401 [''EXPIRED''], ok_response [''TOKEN''], status_response 401 [''EXPIRED'']]
       [(''oauth_creds.json'', ''CREDENTIALS'')]"

definition empty_payload :: "string \<Rightarrow> string \<Rightarrow> json" where
  "empty_payload model_name pid =
     JObject [(''model'', JString model_name),
              (''request'', JObject [(''contents'', JArray []),
                 (''generationConfig'', JObject [(''temperature'', JFloat default_temperature)])]),
              (''project'', JString pid)]"

text \<open>
  A parser that knows the frame of the example stream, and a stream callback that counts
  its calls.
\<close>

definition frame_library :: library where
  \<open>frame_library = example_library [(''{"a":1}'', JObject [(''a'', JUInt 1)])] (\<lambda>j. None)\<close>

definition counting_callback :: "nat StreamCallback" where
  "counting_callback chunk n w = (Suc n, w)"

text \<open>
  A turn with two tool calls: the provider asks for the tool \<open>x\<close>, which has no handler,
  and then for the tool \<open>known\<close>, whose handler answers \<open>ok\<close>. The session is not
  streaming and has one event handler.
\<close>

definition tool_answer :: json where
  "tool_answer =
     JObject [(''candidates'',
       JArray [JObject [(''content'',
         JObject [(''parts'',
           JArray [JObject [(''functionCall'', JObject [(''name'', JString ''x'')])],
                   JObject [(''functionCall'', JObject [(''name'', JString ''known'')])]])])]])]"

definition tool_library :: library where
  "tool_library = example_library [(''ANSWER'', tool_answer)] (\<lambda>j. Some ''body'')"

definition tool_world :: world where
  "tool_world = example_world 2000000 [ok_response [''ANSWER'']] []"

definition known_handler :: ToolHandler where
  "known_handler invocation =
     Returns \<lparr>result_type = Some Success, text_result_for_llm = Some ''ok'',
              binary_result = None, session_log = None\<rparr>"

definition tool_session :: Session where
  "tool_session =
     \<lparr>session_id = ''s1'', model = ''gemini'',
      backend = example_backend (Some fresh_credentials) ''project-1'',
      tools = [], system_message = None, generation_config = None, thinking_config = None,
      streaming = False, closed = False, start_time = 0, modified_time = 0, messages = [],
      tool_handlers = [''known'' \<mapsto> known_handler], event_handlers = [0]\<rparr>"

definition hello :: MessageOptions where
  "hello = \<lparr>prompt = ''hi'', opt_context = None\<rparr>"


definition asked_session :: Session where
  "asked_session = tool_session\<lparr>messages := [new_Message User ''hi'']\<rparr>"

definition x_call :: ToolCall where
  "x_call = \<lparr>tc_id = ''u'', tc_type = ''function'',
             tc_function = \<lparr>fn_name = ''x'', fn_arguments = JObject []\<rparr>\<rparr>"

definition known_call :: ToolCall where
  "known_call = \<lparr>tc_id = ''uu'', tc_type = ''function'',
                 tc_function = \<lparr>fn_name = ''known'', fn_arguments = JObject []\<rparr>\<rparr>"

text \<open>
  A streaming session and a body of one frame, in which the provider says \<open>Hi\<close> and asks
  for the tool \<open>x\<close>.
\<close>

definition frame_answer :: json where
  "frame_answer =
     JObject [(''candidates'',
       JArray [JObject [(''content'',
         JObject [(''parts'',
           JArray [JObject [(''text'', JString ''Hi'')],
                   JObject [(''functionCall'', JObject [(''name'', JString ''x'')])]])])]])]"

definition stream_library :: library where
  "stream_library = example_library [(''FRAME'', frame_answer)] (\<lambda>j. Some ''body'')"

definition stream_world :: world where
  "stream_world = example_world 2000000 [ok_response [''data: FRAME'' @ [LF]]] []"

definition streaming_session :: Session where
  "streaming_session = asked_session\<lparr>streaming := True\<rparr>"


section \<open>Evaluation rules\<close>

lemmas example_defs = example_library_def example_world_def example_manager_def ok_response_def
  status_response_def zero_expiry_credentials_def stale_credentials_def no_refresh_credentials_def
  fresh_credentials_def token_answer_def token_library_def token_world_def example_backend_def
  project_library_def polling_world_def free_tier_world_def retry_library_def retry_world_def
  empty_payload_def to_json_def frame_library_def counting_callback_def

lemmas auth_defs = ensure_authenticated_def is_token_valid_def refresh_access_token_def
  curl_easy_init_def curl_easy_perform_def parse_def dump_def credentials_from_token_data_def
  value_string_def value_int_def value_int64_def current_time_ms_def save_credentials_def
  get_credential_path_def get_gemini_credential_path_def load_cached_credentials_def
  from_json_def token_request_def TOKEN_REFRESH_BUFFER_MS_def Let_def

lemmas backend_defs = get_auth_headers_def ensure_project_id_def bearer_token_def header_lines_def
  build_request_payload_def prepare_messages_def prepare_tools_def gen_config_of_def
  handle_http_error_def error_message_of_def

lemmas project_defs = ensure_project_id_def onboard_for_project_def tier_to_onboard_def
  get_project_id_def get_gemini_env_path_def get_home_directory_def client_metadata_def
  onboard_request_of_def api_headers_def get_api_endpoint_def value_bool_def pending_def
  sleep_for_def ONBOARD_MAX_RETRIES_def ONBOARD_SLEEP_SECONDS_def

section \<open>Paths do not depend on what the SDK changes\<close>

lemma get_home_directory_update [simp]:
  "get_home_directory (w\<lparr>clock_reads := a\<rparr>) = get_home_directory w"
  "get_home_directory (w\<lparr>curl_handles := b\<rparr>) = get_home_directory w"
  "get_home_directory (w\<lparr>requests := c\<rparr>) = get_home_directory w"
  "get_home_directory (w\<lparr>files := d\<rparr>) = get_home_directory w"
  "get_home_directory (w\<lparr>uuids_drawn := e\<rparr>) = get_home_directory w"
  "get_home_directory (w\<lparr>slept_seconds := f\<rparr>) = get_home_directory w"
  "get_home_directory (w\<lparr>cerr := g\<rparr>) = get_home_directory w"
  by (simp_all add: get_home_directory_def split: option.splits)

lemma get_credential_path_update [simp]:
  "get_credential_path om (w\<lparr>clock_reads := a\<rparr>) = get_credential_path om w"
  "get_credential_path om (w\<lparr>curl_handles := b\<rparr>) = get_credential_path om w"
  "get_credential_path om (w\<lparr>requests := c\<rparr>) = get_credential_path om w"
  "get_credential_path om (w\<lparr>files := d\<rparr>) = get_credential_path om w"
  "get_credential_path om (w\<lparr>uuids_drawn := e\<rparr>) = get_credential_path om w"
  "get_credential_path om (w\<lparr>slept_seconds := f\<rparr>) = get_credential_path om w"
  "get_credential_path om (w\<lparr>cerr := g\<rparr>) = get_credential_path om w"
  by (simp_all add: get_credential_path_def get_gemini_credential_path_def split: option.splits)

section \<open>Requests sent by a token refresh\<close>

lemma save_credentials_requests:
  "save_credentials L om c w = (r, w') \<Longrightarrow> requests w' = requests w"
  by (auto simp: save_credentials_def Let_def split: sum.splits if_splits)

lemma credentials_from_token_data_requests:
  "credentials_from_token_data L om c td w = (r, w') \<Longrightarrow> requests w' = requests w"
  by (auto simp: credentials_from_token_data_def Let_def current_time_ms_def
      split: sum.splits prod.splits dest!: save_credentials_requests)

lemma refresh_access_token_requests:
  "refresh_access_token L om c w = (r, w') \<Longrightarrow>
     requests w' = requests w \<or> requests w' = requests w @ [token_request L om c]"
  by (auto simp: refresh_access_token_def Let_def curl_easy_init_def curl_easy_perform_def
      split: sum.splits prod.splits option.splits CURLcode.splits curl_outcome.splits if_splits
      dest!: credentials_from_token_data_requests)

section \<open>Retry after an authentication failure\<close>

text \<open>Which requests the steps of an attempt send.\<close>

lemma url_distinct [simp]:
  "GEMINI_OAUTH_TOKEN_ENDPOINT \<noteq> get_api_endpoint @ '':generateContent''"
  "get_api_endpoint @ '':loadCodeAssist'' \<noteq> get_api_endpoint @ '':generateContent''"
  "get_api_endpoint @ '':onboardUser'' \<noteq> get_api_endpoint @ '':generateContent''"
  "get_api_endpoint @ '':loadCodeAssist'' \<noteq> GEMINI_OAUTH_TOKEN_ENDPOINT"
  "get_api_endpoint @ '':onboardUser'' \<noteq> GEMINI_OAUTH_TOKEN_ENDPOINT"
  "get_api_endpoint @ '':generateContent'' \<noteq> GEMINI_OAUTH_TOKEN_ENDPOINT"
  by (simp_all add: get_api_endpoint_def GEMINI_OAUTH_TOKEN_ENDPOINT_def
      GEMINI_CODE_ASSIST_ENDPOINT_def GEMINI_CODE_ASSIST_API_VERSION_def)

lemma token_request_url [simp]: "url (token_request L om c) = GEMINI_OAUTH_TOKEN_ENDPOINT"
  by (simp add: token_request_def)

lemma refresh_access_token_success:
  "refresh_access_token L om c w = (Inr c', w') \<Longrightarrow>
     requests w' = requests w @ [token_request L om c]"
  by (auto simp: refresh_access_token_def Let_def curl_easy_init_def curl_easy_perform_def
      split: sum.splits prod.splits option.splits CURLcode.splits curl_outcome.splits if_splits
      dest!: credentials_from_token_data_requests)

lemma refresh_access_token_counts:
  assumes "refresh_access_token L om c w = (r, w')"
  shows "completion_requests w' = completion_requests w"
    and "r = Inr c' \<Longrightarrow> length (token_requests w') = Suc (length (token_requests w))"
  using refresh_access_token_requests [OF assms] refresh_access_token_success [of L om c w c' w'] assms
  by (auto simp: completion_requests_def token_requests_def)

lemma is_token_valid_requests:
  "is_token_valid c w = (v, w') \<Longrightarrow> requests w' = requests w"
  by (auto simp: is_token_valid_def current_time_ms_def split: if_splits)

lemma ensure_authenticated_counts:
  assumes "ensure_authenticated L force om w = (r, om', w')"
  shows "completion_requests w' = completion_requests w"
    and "force \<Longrightarrow> r = Inr t \<Longrightarrow> length (token_requests w') = Suc (length (token_requests w))"
proof -
  show "completion_requests w' = completion_requests w"
    using assms
    by (auto simp: ensure_authenticated_def Let_def completion_requests_def
        split: sum.splits prod.splits option.splits if_splits
        dest!: refresh_access_token_counts(1) is_token_valid_requests)
  show "length (token_requests w') = Suc (length (token_requests w))" if "force" "r = Inr t"
    using assms that
    by (auto simp: ensure_authenticated_def Let_def
        split: sum.splits prod.splits option.splits if_splits
        dest!: refresh_access_token_counts(2))
qed

lemma get_auth_headers_counts:
  assumes "get_auth_headers L force om w = (r, om', w')"
  shows "completion_requests w' = completion_requests w"
    and "force \<Longrightarrow> r = Inr hs \<Longrightarrow> length (token_requests w') = Suc (length (token_requests w))"
proof -
  obtain r0 where e: "ensure_authenticated L force om w = (r0, om', w')"
    using assms by (auto simp: get_auth_headers_def split: prod.splits sum.splits)
  show "completion_requests w' = completion_requests w"
    by (rule ensure_authenticated_counts(1) [OF e])
  show "length (token_requests w') = Suc (length (token_requests w))" if "force" "r = Inr hs"
  proof -
    from that assms e obtain t where "r0 = Inr t"
      by (auto simp: get_auth_headers_def split: prod.splits sum.splits)
    with ensure_authenticated_counts(2) [OF e that(1)] show ?thesis by simp
  qed
qed

lemma onboard_loop_counts:
  "onboard_loop L token tier rq n w = (r, w') \<Longrightarrow>
     completion_requests w' = completion_requests w \<and> token_requests w' = token_requests w"
proof (induction n arbitrary: w)
  case 0
  then show ?case by simp
next
  case (Suc n)
  show ?case
  proof (cases "network w (curl_handles w)")
    case InitFailed
    then have "onboard_loop L token tier rq n (w\<lparr>curl_handles := Suc (curl_handles w)\<rparr>) = (r, w')"
      using Suc.prems by (simp add: curl_easy_init_def)
    from Suc.IH [OF this] show ?thesis
      by (simp add: completion_requests_def token_requests_def)
  next
    case (Transfer resp)
    show ?thesis
    proof (cases "json_dump L (- 1) rq")
      case None
      then show ?thesis using Suc.prems Transfer
        by (auto simp: curl_easy_init_def dump_def completion_requests_def token_requests_def)
    next
      case (Some body)
      define w2 where "w2 = curl_easy_perform
         \<lparr>url = get_api_endpoint @ '':onboardUser'', headers = api_headers token, post_fields = body\<rparr>
         (w\<lparr>curl_handles := Suc (curl_handles w)\<rparr>)"
      have w2: "completion_requests w2 = completion_requests w" "token_requests w2 = token_requests w"
        by (simp_all add: w2_def curl_easy_perform_def completion_requests_def token_requests_def)
      have "w' = w2 \<or> onboard_loop L token tier rq n (sleep_for ONBOARD_SLEEP_SECONDS w2) = (r, w')"
        using Suc.prems Transfer Some
        by (auto simp: curl_easy_init_def dump_def Let_def w2_def
            split: sum.splits if_splits)
      then show ?thesis
      proof
        assume "w' = w2" then show ?thesis using w2 by simp
      next
        assume "onboard_loop L token tier rq n (sleep_for ONBOARD_SLEEP_SECONDS w2) = (r, w')"
        from Suc.IH [OF this] show ?thesis using w2
          by (simp add: sleep_for_def completion_requests_def token_requests_def)
      qed
    qed
  qed
qed

lemma onboard_for_project_counts:
  "onboard_for_project L token env tier b w = (r, b', w') \<Longrightarrow>
     completion_requests w' = completion_requests w \<and> token_requests w' = token_requests w"
  by (auto simp: onboard_for_project_def
      split: prod.splits sum.splits option.splits if_splits dest!: onboard_loop_counts)

lemma ensure_project_id_counts:
  assumes "ensure_project_id L token b w = (r, b', w')"
  shows "completion_requests w' = completion_requests w \<and> token_requests w' = token_requests w"
proof (cases "project_id b \<noteq> []")
  case True
  then show ?thesis using assms by (simp add: ensure_project_id_def)
next
  case False
  show ?thesis
  proof (cases "network w (curl_handles w)")
    case InitFailed
    then show ?thesis using assms False
      by (auto simp: ensure_project_id_def Let_def curl_easy_init_def completion_requests_def
          token_requests_def)
  next
    case (Transfer resp)
    show ?thesis
    proof (cases "json_dump L (- 1) (JObject [(''cloudaicompanionProject'',
              if get_project_id (oauth_manager b) w = [] then JNull
              else JString (get_project_id (oauth_manager b) w)),
             (''metadata'', client_metadata (get_project_id (oauth_manager b) w))])")
      case None
      then show ?thesis using assms False Transfer
        by (auto simp: ensure_project_id_def Let_def curl_easy_init_def dump_def
            completion_requests_def token_requests_def)
    next
      case (Some body)
      define w2 where "w2 = curl_easy_perform
         \<lparr>url = get_api_endpoint @ '':loadCodeAssist'', headers = api_headers token, post_fields = body\<rparr>
         (w\<lparr>curl_handles := Suc (curl_handles w)\<rparr>)"
      have w2: "completion_requests w2 = completion_requests w" "token_requests w2 = token_requests w"
        by (simp_all add: w2_def curl_easy_perform_def completion_requests_def token_requests_def)
      have "w' = w2 \<or> (\<exists>tier. onboard_for_project L token (get_project_id (oauth_manager b) w)
             tier b w2 = (r, b', w'))"
        using assms False Transfer Some
        by (auto simp: ensure_project_id_def curl_easy_init_def dump_def Let_def w2_def
            split: sum.splits if_splits)
      then show ?thesis using w2 by (auto dest!: onboard_for_project_counts)
    qed
  qed
qed

lemma parse_parts_requests:
  "parse_parts ps chunk w = (r, w') \<Longrightarrow> requests w' = requests w"
proof (induction ps arbitrary: chunk w)
  case Nil
  then show ?case by simp
next
  case (Cons part rest)
  from Cons.prems show ?case
    by (auto simp: Let_def generate_uuid_def split: sum.splits if_splits prod.splits
        dest!: Cons.IH)
qed

lemma parse_completion_response_requests:
  "parse_completion_response L d w = (r, w') \<Longrightarrow> requests w' = requests w"
  by (auto simp: parse_completion_response_def parse_candidate_def Let_def
      split: sum.splits if_splits prod.splits option.splits dest!: parse_parts_requests)

lemma retried_call_counts:
  assumes run: "complete_with_retry L model_name msgs gc tc tool_list 1 b w = (r, b', w')"
  shows "length (completion_requests w') \<le> Suc (length (completion_requests w)) \<and>
    (completion_requests w' \<noteq> completion_requests w \<longrightarrow>
       length (token_requests w') = Suc (length (token_requests w)))"
proof -
  obtain ra om_auth w_auth where
    auth: "get_auth_headers L True (oauth_manager b) w = (ra, om_auth, w_auth)"
    by (metis prod_cases3)
  note ca = get_auth_headers_counts [OF auth]
  show ?thesis
  proof (cases ra)
    case (Inl e)
    then have "w' = w_auth" using run auth by (subst (asm) complete_with_retry.simps) simp
    then show ?thesis using ca(1) by simp
  next
    case (Inr hs)
    note tok = ca(2) [OF _ Inr]
    obtain rp b_proj w_proj where
      proj: "ensure_project_id L (bearer_token hs) (b\<lparr>oauth_manager := om_auth\<rparr>) w_auth =
               (rp, b_proj, w_proj)"
      by (metis prod_cases3)
    note cp = ensure_project_id_counts [OF proj]
    have same: "completion_requests w_proj = completion_requests w"
      "length (token_requests w_proj) = Suc (length (token_requests w))"
      using cp ca(1) tok by simp_all
    have "requests w' = requests w_proj \<or>
      (\<exists>rq. url rq = get_api_endpoint @ '':generateContent'' \<and> requests w' = requests w_proj @ [rq])"
      using run auth Inr proj
      by (subst (asm) complete_with_retry.simps)
         (auto simp: Let_def curl_easy_init_def dump_def curl_easy_perform_def
           split: sum.splits option.splits curl_outcome.splits CURLcode.splits if_splits prod.splits
           dest!: parse_completion_response_requests)
    then show ?thesis
      using same by (auto simp: completion_requests_def token_requests_def)
  qed
qed

lemma attempt_retried:
  assumes "get_auth_headers L False (oauth_manager b) w = (Inr hs, om_auth, w_auth)"
    and "ensure_project_id L (bearer_token hs) (b\<lparr>oauth_manager := om_auth\<rparr>) w_auth =
           (Inr pid, b_proj, w_proj)"
    and "build_request_payload model_name msgs gc tc tool_list pid = Inr payload"
    and "network w_proj (curl_handles w_proj) = Transfer r"
    and "json_dump L (- 1) payload = Some request_body"
    and "http_code r = 401 \<or> http_code r = 403"
  shows "complete_with_retry L model_name msgs gc tc tool_list 0 b w =
     complete_with_retry L model_name msgs gc tc tool_list 1
       (b_proj\<lparr>oauth_manager := (oauth_manager b_proj)\<lparr>credentials := None\<rparr>\<rparr>)
       (curl_easy_perform
          \<lparr>url = get_api_endpoint @ '':generateContent'', headers = header_lines hs,
           post_fields = request_body\<rparr>
          (w_proj\<lparr>curl_handles := Suc (curl_handles w_proj)\<rparr>))"
  using assms
  by (subst complete_with_retry.simps)
     (auto simp: curl_easy_init_def dump_def Let_def invalidate_credentials_def)

lemma attempt_status:
  assumes "get_auth_headers L (0 < retry_count) (oauth_manager b) w = (Inr hs, om_auth, w_auth)"
    and "ensure_project_id L (bearer_token hs) (b\<lparr>oauth_manager := om_auth\<rparr>) w_auth =
           (Inr pid, b_proj, w_proj)"
    and "build_request_payload model_name msgs gc tc tool_list pid = Inr payload"
    and "network w_proj (curl_handles w_proj) = Transfer r"
    and "json_dump L (- 1) payload = Some request_body"
    and "res r = CURLE_OK"
    and "http_code r \<noteq> 200"
    and "\<not> ((http_code r = 401 \<or> http_code r = 403) \<and> retry_count = 0)"
  shows "complete_with_retry L model_name msgs gc tc tool_list retry_count b w =
     (Inl (handle_http_error L (http_code r) (concat (chunks r))), b_proj,
      curl_easy_perform
          \<lparr>url = get_api_endpoint @ '':generateContent'', headers = header_lines hs,
           post_fields = request_body\<rparr>
          (w_proj\<lparr>curl_handles := Suc (curl_handles w_proj)\<rparr>))"
  using assms
  by (subst complete_with_retry.simps)
     (auto simp: curl_easy_init_def dump_def Let_def)

text \<open>
  C1. Let the first attempt of \<open>complete\<close> reach its HTTP exchange and be answered with
  status 401 or 403. Then the cached credential is dropped and the call is run again as
  a whole, once, as the attempt with \<open>retry_count\<close> 1, whose outcome is the outcome of
  \<open>complete\<close>. That attempt asks for its token with a forced refresh: when it reaches
  the completion endpoint it has made exactly one exchange with the token endpoint. In all,
  at most two requests go to the completion endpoint. When the second attempt reaches
  its exchange and is answered with 401 or 403 again, the error (\<open>APIError\<close> with
  status 401, or \<open>PermissionDeniedError\<close>) is the outcome of \<open>complete\<close>, and
  exactly two requests were sent to the completion endpoint: there is no third attempt.
\<close>

theorem complete_retries_once:
  assumes auth: "get_auth_headers L False (oauth_manager b) w = (Inr hs, om_auth, w_auth)"
    and project: "ensure_project_id L (bearer_token hs) (b\<lparr>oauth_manager := om_auth\<rparr>) w_auth =
           (Inr pid, b_proj, w_proj)"
    and payload: "build_request_payload model_name msgs gc tc tool_list pid = Inr payload"
    and handle: "network w_proj (curl_handles w_proj) = Transfer r"
    and body: "json_dump L (- 1) payload = Some request_body"
    and status: "http_code r = 401 \<or> http_code r = 403"
    and invalidated: "b_retry = b_proj\<lparr>oauth_manager := (oauth_manager b_proj)\<lparr>credentials := None\<rparr>\<rparr>"
    and sent: "w_retry = curl_easy_perform
          \<lparr>url = get_api_endpoint @ '':generateContent'', headers = header_lines hs,
           post_fields = request_body\<rparr>
          (w_proj\<lparr>curl_handles := Suc (curl_handles w_proj)\<rparr>)"
    and retried: "complete_with_retry L model_name msgs gc tc tool_list 1 b_retry w_retry = (r', b', w')"
  shows "complete L model_name msgs gc tc tool_list b w = (r', b', w') \<and>
    length (completion_requests w_retry) = length (completion_requests w) + 1 \<and>
    length (completion_requests w') \<le> length (completion_requests w) + 2 \<and>
    (completion_requests w' \<noteq> completion_requests w_retry \<longrightarrow>
       length (token_requests w') = length (token_requests w_retry) + 1) \<and>
    (get_auth_headers L True (oauth_manager b_retry) w_retry = (Inr hs_r, om_r, w_auth_r) \<and>
     ensure_project_id L (bearer_token hs_r) (b_retry\<lparr>oauth_manager := om_r\<rparr>) w_auth_r =
       (Inr pid_r, b_proj_r, w_proj_r) \<and>
     build_request_payload model_name msgs gc tc tool_list pid_r = Inr payload_r \<and>
     network w_proj_r (curl_handles w_proj_r) = Transfer r_r \<and>
     json_dump L (- 1) payload_r = Some request_body_r \<and>
     res r_r = CURLE_OK \<and> (http_code r_r = 401 \<or> http_code r_r = 403) \<longrightarrow>
       r' = Inl (if http_code r_r = 403
                 then PermissionDeniedError (''Permission denied: '' @ error_message_of L (concat (chunks r_r)))
                 else APIError (''API error: '' @ error_message_of L (concat (chunks r_r))) 401) \<and>
       length (completion_requests w') = length (completion_requests w) + 2)"
proof -
  have first: "complete L model_name msgs gc tc tool_list b w = (r', b', w')"
    unfolding complete_def
    using attempt_retried [OF auth project payload handle body status] retried invalidated sent
    by simp
  have c1: "completion_requests w_proj = completion_requests w"
    using get_auth_headers_counts(1) [OF auth] ensure_project_id_counts [OF project] by simp
  have c2: "length (completion_requests w_retry) = length (completion_requests w) + 1"
    using c1 by (simp add: sent curl_easy_perform_def completion_requests_def)
  note c3 = retried_call_counts [OF retried]
  have last: "r' = Inl (if http_code r_r = 403
                 then PermissionDeniedError (''Permission denied: '' @ error_message_of L (concat (chunks r_r)))
                 else APIError (''API error: '' @ error_message_of L (concat (chunks r_r))) 401) \<and>
       length (completion_requests w') = length (completion_requests w) + 2"
    if h: "get_auth_headers L True (oauth_manager b_retry) w_retry = (Inr hs_r, om_r, w_auth_r)"
     "ensure_project_id L (bearer_token hs_r) (b_retry\<lparr>oauth_manager := om_r\<rparr>) w_auth_r =
       (Inr pid_r, b_proj_r, w_proj_r)"
     "build_request_payload model_name msgs gc tc tool_list pid_r = Inr payload_r"
     "network w_proj_r (curl_handles w_proj_r) = Transfer r_r"
     "json_dump L (- 1) payload_r = Some request_body_r"
     "res r_r = CURLE_OK" "http_code r_r = 401 \<or> http_code r_r = 403"
  proof -
    have s200: "http_code r_r \<noteq> 200" using h(7) by auto
    have d: "completion_requests w_proj_r = completion_requests w_retry"
      using get_auth_headers_counts(1) [OF h(1)] ensure_project_id_counts [OF h(2)] by simp
    from attempt_status [where retry_count = 1, simplified, OF h(1) h(2) h(3) h(4) h(5) h(6) s200]
      retried
    have "r' = Inl (handle_http_error L (http_code r_r) (concat (chunks r_r)))"
      and "w' = curl_easy_perform
          \<lparr>url = get_api_endpoint @ '':generateContent'', headers = header_lines hs_r,
           post_fields = request_body_r\<rparr>
          (w_proj_r\<lparr>curl_handles := Suc (curl_handles w_proj_r)\<rparr>)"
      by simp_all
    then show ?thesis using h(7) d c2
      by (auto simp: handle_http_error_def curl_easy_perform_def completion_requests_def)
  qed
  show ?thesis using first c2 c3 last by auto
qed

text \<open>
  The theorem at a completion endpoint that answers 401 to both attempts: the requests are
  a completion request, a token refresh, and a second completion request.
\<close>

theorem complete_retries_once_witness:
  "fst (complete retry_library ''gemini'' [] None None []
          (example_backend (Some fresh_credentials) ''project'') retry_world) =
     Inl (APIError ''API error: EXPIRED'' 401) \<and>
   map url (requests (snd (snd (complete retry_library ''gemini'' [] None None []
          (example_backend (Some fresh_credentials) ''project'') retry_world)))) =
     [get_api_endpoint @ '':generateContent'', GEMINI_OAUTH_TOKEN_ENDPOINT,
      get_api_endpoint @ '':generateContent'']"
proof -
  define b where "b = example_backend (Some fresh_credentials) ''project''"
  define w_auth where "w_auth = retry_world\<lparr>clock_reads := 1\<rparr>"
  define hs where "hs = [(''Authorization'', ''Bearer old''), (''Content-Type'', ''application/json'')]"
  define b_retry where "b_retry = example_backend None ''project''"
  define w_retry where "w_retry = curl_easy_perform
          \<lparr>url = get_api_endpoint @ '':generateContent'', headers = header_lines hs,
           post_fields = ''body''\<rparr>
          (w_auth\<lparr>curl_handles := Suc (curl_handles w_auth)\<rparr>)"
  define hs_r where "hs_r = [(''Authorization'', ''Bearer new''), (''Content-Type'', ''application/json'')]"
  define om_r where "om_r = fst (snd (get_auth_headers retry_library True (oauth_manager b_retry) w_retry))"
  define w_auth_r where "w_auth_r = snd (snd (get_auth_headers retry_library True (oauth_manager b_retry) w_retry))"
  define out where "out = complete_with_retry retry_library ''gemini'' [] None None [] 1 b_retry w_retry"
  note defs = b_def w_auth_def hs_def b_retry_def w_retry_def hs_r_def om_r_def w_auth_r_def
    example_defs auth_defs backend_defs
  have h1: "get_auth_headers retry_library False (oauth_manager b) retry_world = (Inr hs, oauth_manager b, w_auth)"
    by (simp add: defs)
  have h2: "ensure_project_id retry_library (bearer_token hs) (b\<lparr>oauth_manager := oauth_manager b\<rparr>) w_auth =
      (Inr ''project'', b, w_auth)"
    by (simp add: defs)
  have h3: "build_request_payload ''gemini'' [] None None [] ''project'' = Inr (empty_payload ''gemini'' ''project'')"
    by (simp add: defs)
  have h4: "network w_auth (curl_handles w_auth) = Transfer \<lparr>res = CURLE_OK, http_code = 401, chunks = [''EXPIRED'']\<rparr>"
    by (simp add: defs)
  have h5: "json_dump retry_library (- 1) (empty_payload ''gemini'' ''project'') = Some ''body''"
    by (simp add: defs)
  have h7: "b_retry = b\<lparr>oauth_manager := (oauth_manager b)\<lparr>credentials := None\<rparr>\<rparr>"
    by (simp add: defs)
  have h9: "complete_with_retry retry_library ''gemini'' [] None None [] 1 b_retry w_retry =
      (fst out, fst (snd out), snd (snd out))"
    by (simp add: out_def)
  have r1: "get_auth_headers retry_library True (oauth_manager b_retry) w_retry = (Inr hs_r, om_r, w_auth_r)"
    by (simp add: defs)
  have r2: "ensure_project_id retry_library (bearer_token hs_r) (b_retry\<lparr>oauth_manager := om_r\<rparr>) w_auth_r =
      (Inr ''project'', b_retry\<lparr>oauth_manager := om_r\<rparr>, w_auth_r)"
    by (simp add: defs)
  have r4: "network w_auth_r (curl_handles w_auth_r) =
      Transfer \<lparr>res = CURLE_OK, http_code = 401, chunks = [''EXPIRED'']\<rparr>"
    by (simp add: defs)
  note T = complete_retries_once [OF h1 h2 h3 h4 h5 _ h7 w_retry_def h9,
      where hs_r = hs_r and om_r = om_r and w_auth_r = w_auth_r and pid_r = "''project''"
        and b_proj_r = "b_retry\<lparr>oauth_manager := om_r\<rparr>" and w_proj_r = w_auth_r
        and payload_r = "empty_payload ''gemini'' ''project''"
        and r_r = "\<lparr>res = CURLE_OK, http_code = 401, chunks = [''EXPIRED'']\<rparr>"
        and request_body_r = "''body''"]
  have s401: "http_code \<lparr>res = CURLE_OK, http_code = 401, chunks = [''EXPIRED'']\<rparr> = 401 \<or>
      http_code \<lparr>res = CURLE_OK, http_code = 401, chunks = [''EXPIRED'']\<rparr> = 403"
    and ok: "res \<lparr>res = CURLE_OK, http_code = 401, chunks = [''EXPIRED'']\<rparr> = CURLE_OK"
    by simp_all
  from T [OF s401] r1 r2 h3 r4 h5 ok s401
  have res: "complete retry_library ''gemini'' [] None None [] b retry_world = (fst out, fst (snd out), snd (snd out))"
    and err0: "fst out = Inl (if http_code \<lparr>res = CURLE_OK, http_code = 401, chunks = [''EXPIRED'']\<rparr> = 403
                 then PermissionDeniedError (''Permission denied: '' @
                   error_message_of retry_library (concat (chunks \<lparr>res = CURLE_OK, http_code = 401, chunks = [''EXPIRED'']\<rparr>)))
                 else APIError (''API error: '' @
                   error_message_of retry_library (concat (chunks \<lparr>res = CURLE_OK, http_code = 401, chunks = [''EXPIRED'']\<rparr>))) 401)"
    by blast+
  have err: "fst out = Inl (APIError (''API error: '' @ error_message_of retry_library ''EXPIRED'') 401)"
    using err0 by simp
  have urls: "map url (requests (snd (snd out))) =
     [get_api_endpoint @ '':generateContent'', GEMINI_OAUTH_TOKEN_ENDPOINT,
      get_api_endpoint @ '':generateContent'']"
    by (simp add: out_def complete_with_retry.simps defs)
  show ?thesis
    using res err urls by (simp add: b_def error_message_of_def parse_def example_defs)
qed

section \<open>The streaming parser\<close>














section \<open>Token validity and refresh\<close>











section \<open>Events of a turn\<close>


lemma filter_handler:
  "distinct hs \<Longrightarrow> h \<in> set hs \<Longrightarrow> filter (\<lambda>d. fst d = h) (map (\<lambda>handler. (handler, ev)) hs) = [(h, ev)]"
  by (induction hs) (auto simp: filter_empty_conv)

lemma events_seen_emit:
  "distinct (event_handlers sess) \<Longrightarrow> h \<in> set (event_handlers sess) \<Longrightarrow>
     events_seen h (emit sess et d delivered) = events_seen h delivered @ [et]"
  by (simp add: emit_def events_seen_def filter_handler)

lemma handle_tool_calls_session:
  "handle_tool_calls calls sess delivered w = (sess', delivered', w') \<Longrightarrow>
     event_handlers sess' = event_handlers sess \<and> tool_handlers sess' = tool_handlers sess \<and>
     session_id sess' = session_id sess \<and> backend sess' = backend sess \<and>
     closed sess' = closed sess \<and> streaming sess' = streaming sess"
  by (induction calls arbitrary: sess delivered w)
    (auto simp: Let_def split: option.splits handler_outcome.splits)

lemma handle_tool_calls_events:
  "distinct (event_handlers sess) \<Longrightarrow> h \<in> set (event_handlers sess) \<Longrightarrow>
   handle_tool_calls calls sess delivered w = (sess', delivered', w') \<Longrightarrow>
     events_seen h delivered' = events_seen h delivered @ tool_events (tool_handlers sess) calls"
proof (induction calls arbitrary: sess delivered w)
  case Nil
  then show ?case by simp
next
  case (Cons tc rest)
  show ?case
  proof (cases "tool_handlers sess (fn_name (tc_function tc))")
    case None
    with Cons.prems(3) have
      "handle_tool_calls rest
         (sess\<lparr>messages := messages sess @
            [tool_message (fn_name (tc_function tc))
               (''Error: Tool '' @ QUOTE # fn_name (tc_function tc) @ QUOTE # '' not found'') (tc_id tc)]\<rparr>)
         (emit sess ToolCallEvent
            (JObject [(''name'', JString (fn_name (tc_function tc))),
                      (''arguments'', fn_arguments (tc_function tc)),
                      (''callId'', JString (tc_id tc))]) delivered)
         (w\<lparr>cerr := cerr w @ [''Warning: No handler for tool: '' @ fn_name (tc_function tc)]\<rparr>) =
       (sess', delivered', w')"
      by (simp add: Let_def)
    from Cons.IH [OF _ _ this] Cons.prems(1,2) None show ?thesis
      by (simp add: events_seen_emit)
  next
    case (Some handler)
    show ?thesis
    proof (cases "handler (invocation_of tc)")
      case (Returns result)
      with Some Cons.prems(3) obtain s1 d1 where
        r: "handle_tool_calls rest s1 (emit sess ToolResultEvent d1 (emit sess ToolCallEvent
            (JObject [(''name'', JString (fn_name (tc_function tc))),
                      (''arguments'', fn_arguments (tc_function tc)),
                      (''callId'', JString (tc_id tc))]) delivered)) w = (sess', delivered', w')"
        and e: "event_handlers s1 = event_handlers sess" and t: "tool_handlers s1 = tool_handlers sess"
        by (simp add: Let_def)
      from Cons.IH [OF _ _ r] Cons.prems(1,2) e t Some show ?thesis
        by (simp add: events_seen_emit)
    next
      case (Throws e_what)
      with Some Cons.prems(3) obtain s1 d1 w1 where
        r: "handle_tool_calls rest s1 (emit sess ToolResultEvent d1 (emit sess ToolCallEvent
            (JObject [(''name'', JString (fn_name (tc_function tc))),
                      (''arguments'', fn_arguments (tc_function tc)),
                      (''callId'', JString (tc_id tc))]) delivered)) w1 = (sess', delivered', w')"
        and e: "event_handlers s1 = event_handlers sess" and t: "tool_handlers s1 = tool_handlers sess"
        by (simp add: Let_def)
      from Cons.IH [OF _ _ r] Cons.prems(1,2) e t Some show ?thesis
        by (simp add: events_seen_emit)
    qed
  qed
qed

section \<open>What the stream callback preserves\<close>












lemma handle_tool_calls_if:
  "(if calls \<noteq> [] then handle_tool_calls calls sess delivered w else (sess, delivered, w)) =
     handle_tool_calls calls sess delivered w"
  by (cases calls) simp_all


lemma get_response_result:
  assumes d: "distinct (event_handlers sess)" and h: "h \<in> set (event_handlers sess)"
    and c: "complete L (model sess) (messages sess) (generation_config sess) (thinking_config sess)
      (tools sess) (backend sess) w = (Inr chunk, b1, w1)"
  shows "\<exists>sess' delivered' w'.
     get_response L sess delivered w = (Inr (), sess', delivered', w') \<and>
     event_handlers sess' = event_handlers sess \<and> session_id sess' = session_id sess \<and>
     tool_calls (last (messages sess')) = chunk_tool_calls chunk \<and>
     events_seen h delivered' =
       events_seen h delivered @ tool_events (tool_handlers sess) (chunk_tool_calls chunk) @
       (case reasoning_content chunk of None \<Rightarrow> [] | Some r \<Rightarrow> [AssistantReasoning]) @
       [AssistantMessage, SessionIdle]"
proof -
  obtain sess2 delivered2 w2 where
    t: "handle_tool_calls (chunk_tool_calls chunk) (sess\<lparr>backend := b1\<rparr>) delivered w1 =
          (sess2, delivered2, w2)"
    by (cases "handle_tool_calls (chunk_tool_calls chunk) (sess\<lparr>backend := b1\<rparr>) delivered w1")
  from handle_tool_calls_session [OF t] have
    e: "event_handlers sess2 = event_handlers sess" and s: "session_id sess2 = session_id sess"
    by simp_all
  from handle_tool_calls_events [OF _ _ t, of h] d h have
    v: "events_seen h delivered2 =
          events_seen h delivered @ tool_events (tool_handlers sess) (chunk_tool_calls chunk)"
    by simp
  show ?thesis
    using c t e s v d h
    by (simp add: get_response_def handle_tool_calls_if Let_def events_seen_emit new_Message_def
        split: option.splits)
qed


lemma stream_response_result:
  assumes d: "distinct (event_handlers sess)" and h: "h \<in> set (event_handlers sess)"
    and c: "complete_streaming L (model sess) (messages sess) (on_chunk sess) (generation_config sess)
      (thinking_config sess) (tools sess) (empty_acc, delivered) (backend sess) w =
        (Inr u, (acc, delivered1), b1, w1)"
  shows "\<exists>sess' delivered' w'.
     stream_response L sess delivered w = (Inr (), sess', delivered', w') \<and>
     event_handlers sess' = event_handlers sess \<and> session_id sess' = session_id sess \<and>
     tool_calls (last (messages sess')) = all_tool_calls acc \<and>
     events_seen h delivered' =
       events_seen h delivered1 @ tool_events (tool_handlers sess) (all_tool_calls acc) @
       (if full_reasoning acc \<noteq> [] then [AssistantReasoning] else []) @
       [AssistantMessage, SessionIdle]"
proof -
  obtain sess2 delivered2 w2 where
    t: "handle_tool_calls (all_tool_calls acc) (sess\<lparr>backend := b1\<rparr>) delivered1 w1 =
          (sess2, delivered2, w2)"
    by (cases "handle_tool_calls (all_tool_calls acc) (sess\<lparr>backend := b1\<rparr>) delivered1 w1")
  from handle_tool_calls_session [OF t] have
    e: "event_handlers sess2 = event_handlers sess" and s: "session_id sess2 = session_id sess"
    by simp_all
  from handle_tool_calls_events [OF _ _ t, of h] d h have
    v: "events_seen h delivered2 =
          events_seen h delivered1 @ tool_events (tool_handlers sess) (all_tool_calls acc)"
    by simp
  show ?thesis
    using c t e s v d h
    by (simp add: stream_response_def handle_tool_calls_if Let_def events_seen_emit new_Message_def)
qed

section \<open>A turn with two tool calls\<close>

lemmas session_defs = tool_answer_def tool_library_def tool_world_def known_handler_def
  tool_session_def hello_def send_def get_response_def system_clock_now_def complete_def
  parse_completion_response_def response_data_of_def has_candidates_def parse_candidate_def
  generate_uuid_def new_Message_def emit_def tool_message_def invocation_of_def
  message_data_def tool_calls_json_def QUOTE_def events_seen_def value_json_def empty_chunk_def

lemma tool_run:
  "fst (send tool_library hello tool_session [] tool_world) = Inr ()"
  "events_seen 0 (fst (snd (snd (send tool_library hello tool_session [] tool_world)))) =
     [ToolCallEvent, ToolCallEvent, ToolResultEvent, AssistantMessage, SessionIdle]"
  "map content (messages (fst (snd (send tool_library hello tool_session [] tool_world)))) =
     [''hi'', ''Error: Tool '' @ QUOTE # ''x'' @ QUOTE # '' not found'', ''ok'', []]"
  by (simp_all add: complete_with_retry.simps session_defs example_defs auth_defs backend_defs)

section \<open>The event sequence of \<open>send\<close>\<close>












section \<open>A tool call without a handler\<close>

lemma tool_events_append:
  "tool_events handlers (xs @ ys) = tool_events handlers xs @ tool_events handlers ys"
  by (induction xs) simp_all

lemma handle_tool_calls_keeps:
  "m \<in> set (messages sess) \<Longrightarrow>
     m \<in> set (messages (fst (handle_tool_calls calls sess delivered w)))"
  by (induction calls arbitrary: sess delivered w)
    (simp_all add: Let_def split: option.splits handler_outcome.splits)

lemma handle_tool_calls_missing:
  "tc \<in> set calls \<Longrightarrow> tool_handlers sess (fn_name (tc_function tc)) = None \<Longrightarrow>
     missing_handler_message tc \<in> set (messages (fst (handle_tool_calls calls sess delivered w)))"
proof (induction calls arbitrary: sess delivered w)
  case Nil
  then show ?case by simp
next
  case (Cons a calls)
  show ?case
  proof (cases "tc = a")
    case True
    with Cons.prems(2) show ?thesis
      by (simp add: Let_def handle_tool_calls_keeps missing_handler_message_def tool_message_def)
  next
    case False
    with Cons.prems(1) have "tc \<in> set calls" by simp
    with Cons.IH Cons.prems(2) show ?thesis
      by (simp add: Let_def split: option.splits handler_outcome.splits)
  qed
qed

lemma handle_tool_calls_step:
  assumes "tool_handlers sess (fn_name (tc_function tc)) = None"
  shows "handle_tool_calls (tc # rest) sess delivered w =
     handle_tool_calls rest
       (sess\<lparr>messages := messages sess @ [missing_handler_message tc]\<rparr>)
       (emit sess ToolCallEvent
          (JObject [(''name'', JString (fn_name (tc_function tc))),
                    (''arguments'', fn_arguments (tc_function tc)),
                    (''callId'', JString (tc_id tc))]) delivered)
       (w\<lparr>cerr := cerr w @ [''Warning: No handler for tool: '' @ fn_name (tc_function tc)]\<rparr>)"
  using assms by (simp add: Let_def missing_handler_message_def tool_message_def)

lemma handle_tool_calls_seen:
  assumes "distinct (event_handlers sess)" and "h \<in> set (event_handlers sess)"
  shows "events_seen h (fst (snd (handle_tool_calls calls sess delivered w))) =
     events_seen h delivered @ tool_events (tool_handlers sess) calls"
  using handle_tool_calls_events [OF assms, of calls delivered w]
  by (cases "handle_tool_calls calls sess delivered w") simp

lemma get_response_messages:
  assumes "complete L (model sess) (messages sess) (generation_config sess) (thinking_config sess)
      (tools sess) (backend sess) w = (Inr chunk, b1, w1)"
  shows "messages (fst (snd (get_response L sess delivered w))) =
     messages (fst (handle_tool_calls (chunk_tool_calls chunk) (sess\<lparr>backend := b1\<rparr>) delivered w1)) @
     [(new_Message Assistant (chunk_content chunk))\<lparr>tool_calls := chunk_tool_calls chunk\<rparr>]"
  using assms
  by (simp add: get_response_def handle_tool_calls_if Let_def split: prod.splits)

lemma stream_response_messages:
  assumes "complete_streaming L (model sess) (messages sess) (on_chunk sess) (generation_config sess)
      (thinking_config sess) (tools sess) (empty_acc, delivered) (backend sess) w =
        (Inr u, (acc, delivered1), b1, w1)"
  shows "messages (fst (snd (stream_response L sess delivered w))) =
     messages (fst (handle_tool_calls (all_tool_calls acc) (sess\<lparr>backend := b1\<rparr>) delivered1 w1)) @
     [(new_Message Assistant (full_content acc))\<lparr>tool_calls := all_tool_calls acc\<rparr>]"
  using assms
  by (simp add: stream_response_def handle_tool_calls_if Let_def split: prod.splits)

text \<open>
  C6 (as amended). For a tool call whose name has no registered handler,
  \<open>handle_tool_calls\<close> emits the \<open>ToolCall\<close> event, writes a warning, appends to the
  transcript a user message with the text \<open>Error: Tool '<name>' not found\<close>, the name of
  the tool and the id of the call, and goes on with the remaining calls; no
  \<open>ToolResult\<close> event is emitted for the call. Nothing is thrown: when the backend call
  of the turn succeeds, \<open>get_response\<close> and \<open>stream_response\<close> return, the message is in
  the transcript, and the events end with \<open>AssistantMessage\<close> and \<open>SessionIdle\<close>.
\<close>

theorem missing_handler_turn:
  assumes "tool_handlers sess (fn_name (tc_function tc)) = None"
    and "distinct (event_handlers sess)" and "h \<in> set (event_handlers sess)"
  shows "handle_tool_calls (tc # rest) sess delivered w =
       handle_tool_calls rest
         (sess\<lparr>messages := messages sess @ [missing_handler_message tc]\<rparr>)
         (emit sess ToolCallEvent
            (JObject [(''name'', JString (fn_name (tc_function tc))),
                      (''arguments'', fn_arguments (tc_function tc)),
                      (''callId'', JString (tc_id tc))]) delivered)
         (w\<lparr>cerr := cerr w @ [''Warning: No handler for tool: '' @ fn_name (tc_function tc)]\<rparr>) \<and>
     events_seen h (fst (snd (handle_tool_calls (before @ tc # rest) sess delivered w))) =
       events_seen h delivered @ tool_events (tool_handlers sess) before @
       ToolCallEvent # tool_events (tool_handlers sess) rest \<and>
     (complete L (model sess) (messages sess) (generation_config sess) (thinking_config sess)
        (tools sess) (backend sess) w = (Inr chunk, b_done, w_done) \<and>
      chunk_tool_calls chunk = before @ tc # rest \<longrightarrow>
        fst (get_response L sess delivered w) = Inr () \<and>
        missing_handler_message tc \<in> set (messages (fst (snd (get_response L sess delivered w)))) \<and>
        events_seen h (fst (snd (snd (get_response L sess delivered w)))) =
          events_seen h delivered @ tool_events (tool_handlers sess) before @
          ToolCallEvent # tool_events (tool_handlers sess) rest @
          (case reasoning_content chunk of None \<Rightarrow> [] | Some r \<Rightarrow> [AssistantReasoning]) @
          [AssistantMessage, SessionIdle]) \<and>
     (complete_streaming L (model sess) (messages sess) (on_chunk sess) (generation_config sess)
        (thinking_config sess) (tools sess) (empty_acc, delivered) (backend sess) w =
          (Inr u, (acc, delivered_stream), b_stream, w_stream) \<and>
      all_tool_calls acc = before @ tc # rest \<longrightarrow>
        fst (stream_response L sess delivered w) = Inr () \<and>
        missing_handler_message tc \<in> set (messages (fst (snd (stream_response L sess delivered w)))) \<and>
        events_seen h (fst (snd (snd (stream_response L sess delivered w)))) =
          events_seen h delivered_stream @ tool_events (tool_handlers sess) before @
          ToolCallEvent # tool_events (tool_handlers sess) rest @
          (if full_reasoning acc \<noteq> [] then [AssistantReasoning] else []) @
          [AssistantMessage, SessionIdle])"
proof (intro conjI impI)
  show "handle_tool_calls (tc # rest) sess delivered w =
       handle_tool_calls rest
         (sess\<lparr>messages := messages sess @ [missing_handler_message tc]\<rparr>)
         (emit sess ToolCallEvent
            (JObject [(''name'', JString (fn_name (tc_function tc))),
                      (''arguments'', fn_arguments (tc_function tc)),
                      (''callId'', JString (tc_id tc))]) delivered)
         (w\<lparr>cerr := cerr w @ [''Warning: No handler for tool: '' @ fn_name (tc_function tc)]\<rparr>)"
    using assms(1) by (rule handle_tool_calls_step)
next
  show "events_seen h (fst (snd (handle_tool_calls (before @ tc # rest) sess delivered w))) =
       events_seen h delivered @ tool_events (tool_handlers sess) before @
       ToolCallEvent # tool_events (tool_handlers sess) rest"
    using assms by (simp add: handle_tool_calls_seen tool_events_append)
next
  assume a: "complete L (model sess) (messages sess) (generation_config sess) (thinking_config sess)
        (tools sess) (backend sess) w = (Inr chunk, b_done, w_done) \<and>
      chunk_tool_calls chunk = before @ tc # rest"
  then have c: "complete L (model sess) (messages sess) (generation_config sess) (thinking_config sess)
        (tools sess) (backend sess) w = (Inr chunk, b_done, w_done)"
    and t: "chunk_tool_calls chunk = before @ tc # rest" by simp_all
  from get_response_result [OF assms(2,3) c, of delivered] assms(1) t
  show "fst (get_response L sess delivered w) = Inr ()"
    and "events_seen h (fst (snd (snd (get_response L sess delivered w)))) =
          events_seen h delivered @ tool_events (tool_handlers sess) before @
          ToolCallEvent # tool_events (tool_handlers sess) rest @
          (case reasoning_content chunk of None \<Rightarrow> [] | Some r \<Rightarrow> [AssistantReasoning]) @
          [AssistantMessage, SessionIdle]"
    by (auto simp: tool_events_append)
  have "missing_handler_message tc \<in>
      set (messages (fst (handle_tool_calls (chunk_tool_calls chunk) (sess\<lparr>backend := b_done\<rparr>) delivered w_done)))"
    using assms(1) t by (intro handle_tool_calls_missing) simp_all
  then show "missing_handler_message tc \<in> set (messages (fst (snd (get_response L sess delivered w))))"
    by (simp add: get_response_messages [OF c])
next
  assume a: "complete_streaming L (model sess) (messages sess) (on_chunk sess) (generation_config sess)
        (thinking_config sess) (tools sess) (empty_acc, delivered) (backend sess) w =
          (Inr u, (acc, delivered_stream), b_stream, w_stream) \<and>
      all_tool_calls acc = before @ tc # rest"
  then have c: "complete_streaming L (model sess) (messages sess) (on_chunk sess) (generation_config sess)
        (thinking_config sess) (tools sess) (empty_acc, delivered) (backend sess) w =
          (Inr u, (acc, delivered_stream), b_stream, w_stream)"
    and t: "all_tool_calls acc = before @ tc # rest" by simp_all
  from stream_response_result [OF assms(2,3) c] assms(1) t
  show "fst (stream_response L sess delivered w) = Inr ()"
    and "events_seen h (fst (snd (snd (stream_response L sess delivered w)))) =
          events_seen h delivered_stream @ tool_events (tool_handlers sess) before @
          ToolCallEvent # tool_events (tool_handlers sess) rest @
          (if full_reasoning acc \<noteq> [] then [AssistantReasoning] else []) @
          [AssistantMessage, SessionIdle]"
    by (auto simp: tool_events_append)
  have "missing_handler_message tc \<in>
      set (messages (fst (handle_tool_calls (all_tool_calls acc) (sess\<lparr>backend := b_stream\<rparr>)
         delivered_stream w_stream)))"
    using assms(1) t by (intro handle_tool_calls_missing) simp_all
  then show "missing_handler_message tc \<in> set (messages (fst (snd (stream_response L sess delivered w))))"
    by (simp add: stream_response_messages [OF c])
qed

lemmas stream_defs = frame_answer_def stream_library_def stream_world_def streaming_session_def
  asked_session_def x_call_def known_call_def complete_streaming_def stream_write_def
  process_line_def trim_line_def strip_leading_def stream_chunk_def on_chunk_def empty_acc_def
  stream_response_def LF_def CR_def TAB_def missing_handler_message_def

lemma asked_run:
  "fst (complete tool_library (model asked_session) (messages asked_session)
      (generation_config asked_session) (thinking_config asked_session) (tools asked_session)
      (backend asked_session) tool_world) =
     Inr (empty_chunk\<lparr>chunk_tool_calls := [x_call, known_call]\<rparr>)"
  by (simp add: complete_with_retry.simps stream_defs session_defs example_defs auth_defs
      backend_defs)

lemma streaming_run:
  "fst (complete_streaming stream_library (model streaming_session) (messages streaming_session)
      (on_chunk streaming_session) (generation_config streaming_session)
      (thinking_config streaming_session) (tools streaming_session) (empty_acc, [])
      (backend streaming_session) stream_world) = Inr ()"
  "fst (snd (complete_streaming stream_library (model streaming_session) (messages streaming_session)
      (on_chunk streaming_session) (generation_config streaming_session)
      (thinking_config streaming_session) (tools streaming_session) (empty_acc, [])
      (backend streaming_session) stream_world)) =
     (empty_acc\<lparr>full_content := ''Hi'', all_tool_calls := [x_call]\<rparr>,
      [(0, \<lparr>event_type = AssistantMessageDelta,
             data = JObject [(''deltaContent'', JString ''Hi''), (''content'', JString ''Hi'')],
             ev_session_id = ''s1''\<rparr>)])"
  by (simp_all add: complete_streaming_with_retry.simps drain_lines.simps stream_defs session_defs
      example_defs auth_defs backend_defs)

text \<open>
  The two tool calls in a session that is not streaming, and one frame with the tool call
  \<open>x\<close> in a streaming session.
\<close>

theorem missing_handler_turn_witness:
  "tool_handlers asked_session (fn_name (tc_function x_call)) = None \<and>
   distinct (event_handlers asked_session) \<and> 0 \<in> set (event_handlers asked_session) \<and>
   fst (complete tool_library (model asked_session) (messages asked_session)
      (generation_config asked_session) (thinking_config asked_session) (tools asked_session)
      (backend asked_session) tool_world) =
     Inr (empty_chunk\<lparr>chunk_tool_calls := [] @ x_call # [known_call]\<rparr>) \<and>
   fst (get_response tool_library asked_session [] tool_world) = Inr () \<and>
   missing_handler_message x_call \<in>
     set (messages (fst (snd (get_response tool_library asked_session [] tool_world)))) \<and>
   events_seen 0 (fst (snd (snd (get_response tool_library asked_session [] tool_world)))) =
     [ToolCallEvent, ToolCallEvent, ToolResultEvent, AssistantMessage, SessionIdle] \<and>
   fst (stream_response stream_library streaming_session [] stream_world) = Inr () \<and>
   missing_handler_message x_call \<in>
     set (messages (fst (snd (stream_response stream_library streaming_session [] stream_world)))) \<and>
   events_seen 0 (fst (snd (snd (stream_response stream_library streaming_session [] stream_world)))) =
     [AssistantMessageDelta, ToolCallEvent, AssistantMessage, SessionIdle]"
proof -
  have m: "tool_handlers asked_session (fn_name (tc_function x_call)) = None"
    and d: "distinct (event_handlers asked_session)" and h: "0 \<in> set (event_handlers asked_session)"
    by (simp_all add: asked_session_def tool_session_def x_call_def)
  have ms: "tool_handlers streaming_session (fn_name (tc_function x_call)) = None"
    and ds: "distinct (event_handlers streaming_session)"
    and hs: "0 \<in> set (event_handlers streaming_session)"
    by (simp_all add: streaming_session_def asked_session_def tool_session_def x_call_def)
  have c: "complete tool_library (model asked_session) (messages asked_session)
      (generation_config asked_session) (thinking_config asked_session) (tools asked_session)
      (backend asked_session) tool_world =
     (Inr (empty_chunk\<lparr>chunk_tool_calls := [x_call, known_call]\<rparr>),
      snd (complete tool_library (model asked_session) (messages asked_session)
      (generation_config asked_session) (thinking_config asked_session) (tools asked_session)
      (backend asked_session) tool_world))"
    using asked_run by (simp add: prod_eq_iff)
  have cs: "complete_streaming stream_library (model streaming_session) (messages streaming_session)
      (on_chunk streaming_session) (generation_config streaming_session)
      (thinking_config streaming_session) (tools streaming_session) (empty_acc, [])
      (backend streaming_session) stream_world =
     (Inr (), (empty_acc\<lparr>full_content := ''Hi'', all_tool_calls := [x_call]\<rparr>,
      [(0, \<lparr>event_type = AssistantMessageDelta,
             data = JObject [(''deltaContent'', JString ''Hi''), (''content'', JString ''Hi'')],
             ev_session_id = ''s1''\<rparr>)]),
      snd (snd (complete_streaming stream_library (model streaming_session) (messages streaming_session)
      (on_chunk streaming_session) (generation_config streaming_session)
      (thinking_config streaming_session) (tools streaming_session) (empty_acc, [])
      (backend streaming_session) stream_world)))"
    using streaming_run by (simp add: prod_eq_iff)
  note T = missing_handler_turn [OF m d h, where before = "[]" and rest = "[known_call]"
      and L = tool_library and delivered = "[]" and w = tool_world
      and chunk = "empty_chunk\<lparr>chunk_tool_calls := [x_call, known_call]\<rparr>",
      THEN conjunct2, THEN conjunct2, THEN conjunct1, THEN mp]
  note S = missing_handler_turn [OF ms ds hs, where before = "[]" and rest = "[]"
      and L = stream_library and delivered = "[]" and w = stream_world
      and acc = "empty_acc\<lparr>full_content := ''Hi'', all_tool_calls := [x_call]\<rparr>",
      THEN conjunct2, THEN conjunct2, THEN conjunct2, THEN mp]
  have g: "fst (get_response tool_library asked_session [] tool_world) = Inr () \<and>
      missing_handler_message x_call \<in>
        set (messages (fst (snd (get_response tool_library asked_session [] tool_world)))) \<and>
      events_seen 0 (fst (snd (snd (get_response tool_library asked_session [] tool_world)))) =
        [ToolCallEvent, ToolCallEvent, ToolResultEvent, AssistantMessage, SessionIdle]"
    using T [of "fst (snd (complete tool_library (model asked_session) (messages asked_session)
      (generation_config asked_session) (thinking_config asked_session) (tools asked_session)
      (backend asked_session) tool_world))" "snd (snd (complete tool_library (model asked_session) (messages asked_session)
      (generation_config asked_session) (thinking_config asked_session) (tools asked_session)
      (backend asked_session) tool_world))"] c
    by (simp add: events_seen_def empty_chunk_def asked_session_def tool_session_def known_call_def
        x_call_def)
  have s: "fst (stream_response stream_library streaming_session [] stream_world) = Inr () \<and>
      missing_handler_message x_call \<in>
        set (messages (fst (snd (stream_response stream_library streaming_session [] stream_world)))) \<and>
      events_seen 0 (fst (snd (snd (stream_response stream_library streaming_session [] stream_world)))) =
        [AssistantMessageDelta, ToolCallEvent, AssistantMessage, SessionIdle]"
    using S [of "()" _ "fst (snd (snd (complete_streaming stream_library (model streaming_session) (messages streaming_session)
      (on_chunk streaming_session) (generation_config streaming_session)
      (thinking_config streaming_session) (tools streaming_session) (empty_acc, [])
      (backend streaming_session) stream_world)))" "snd (snd (snd (complete_streaming stream_library (model streaming_session) (messages streaming_session)
      (on_chunk streaming_session) (generation_config streaming_session)
      (thinking_config streaming_session) (tools streaming_session) (empty_acc, [])
      (backend streaming_session) stream_world)))"] cs
    by (simp add: events_seen_def empty_acc_def)
  from m d h asked_run g s show ?thesis by simp
qed

text \<open>
  C6 as stated fails on the text of the message: for the tool \<open>x\<close> the transcript holds
  \<open>Error: Tool 'x' not found\<close>, and no message with the text \<open>Tool 'x' not found\<close>.
\<close>

theorem missing_handler_text_counterexample:
  "tool_handlers tool_session ''x'' = None \<and>
   fst (send tool_library hello tool_session [] tool_world) = Inr () \<and>
   map content (messages (fst (snd (send tool_library hello tool_session [] tool_world)))) =
     [''hi'', ''Error: Tool '' @ QUOTE # ''x'' @ QUOTE # '' not found'', ''ok'', []] \<and>
   claimed_failure_text ''x'' \<notin>
     set (map content (messages (fst (snd (send tool_library hello tool_session [] tool_world)))))"
  unfolding tool_run by (simp add: tool_session_def claimed_failure_text_def QUOTE_def)

section \<open>Project resolution\<close>

lemma onboard_loop_pending:
  assumes "json_dump L (- 1) rq = Some body"
    and "\<forall>i<n. pending L (network w (curl_handles w + i))"
  shows "\<exists>w'. onboard_loop L token tier rq n w = (Inr None, w') \<and>
     network w' = network w \<and> curl_handles w' = curl_handles w + n \<and>
     length (requests w') = length (requests w) + n \<and>
     slept_seconds w' = slept_seconds w + ONBOARD_SLEEP_SECONDS * n"
  using assms
proof (induction n arbitrary: w)
  case 0
  then show ?case by simp
next
  case (Suc n)
  from Suc.prems(2) have p0: "pending L (network w (curl_handles w))"
    by (metis add.right_neutral zero_less_Suc)
  then obtain r lro where r: "network w (curl_handles w) = Transfer r" "res r = CURLE_OK"
    "http_code r = 200" "json_parse L (concat (chunks r)) = Some lro"
    "value_bool lro ''done'' False = Inr False"
    by (auto simp: pending_def split: curl_outcome.splits option.splits)
  define w2 where "w2 = sleep_for ONBOARD_SLEEP_SECONDS (curl_easy_perform
       \<lparr>url = get_api_endpoint @ '':onboardUser'', headers = api_headers token, post_fields = body\<rparr>
       (w\<lparr>curl_handles := Suc (curl_handles w)\<rparr>))"
  have step: "onboard_loop L token tier rq (Suc n) w = onboard_loop L token tier rq n w2"
    using r Suc.prems(1) by (simp add: curl_easy_init_def dump_def parse_def Let_def w2_def)
  have w2: "network w2 = network w" "curl_handles w2 = Suc (curl_handles w)"
    "length (requests w2) = Suc (length (requests w))"
    "slept_seconds w2 = slept_seconds w + ONBOARD_SLEEP_SECONDS"
    by (simp_all add: w2_def sleep_for_def curl_easy_perform_def)
  have "\<forall>i<n. pending L (network w2 (curl_handles w2 + i))"
    using Suc.prems(2) w2 by (metis Suc_less_eq add_Suc add_Suc_right)
  from Suc.IH [OF Suc.prems(1) this] obtain w' where
    "onboard_loop L token tier rq n w2 = (Inr None, w')" "network w' = network w2"
    "curl_handles w' = curl_handles w2 + n" "length (requests w') = length (requests w2) + n"
    "slept_seconds w' = slept_seconds w2 + ONBOARD_SLEEP_SECONDS * n"
    by blast
  then show ?case using step w2 by simp
qed

lemma onboard_for_project_id:
  "onboard_for_project L token env tier b w = (Inr pid, b', w') \<Longrightarrow> project_id b' = pid"
  by (auto simp: onboard_for_project_def split: prod.splits sum.splits option.splits if_splits)

lemma ensure_project_id_cached:
  "ensure_project_id L token b w = (Inr pid, b', w') \<Longrightarrow> project_id b' = pid"
  by (auto simp: ensure_project_id_def Let_def curl_easy_init_def
      split: prod.splits sum.splits option.splits if_splits curl_outcome.splits
      dest: onboard_for_project_id)

text \<open>
  C7 (as amended). A successful call of \<open>ensure_project_id\<close> leaves the project id it
  returns in the backend. When that id is not empty, every later call, with any token and
  in any world, returns the same id and changes neither the backend nor the world: no
  discovery or onboarding request is made. An empty id (the free-tier outcome) is stored
  as the empty string, which is the backend's mark for "not resolved", so the next call
  runs the discovery again. On a tier other than the free tier, when each of the 30
  polling attempts is answered by a pending operation, \<open>onboard_for_project\<close> fails
  with \<open>OnboardingError\<close> after 30 requests and 60 seconds of sleep (30 times 2 s).
\<close>

theorem ensure_project_id_memoized:
  "(ensure_project_id L token b w = (Inr pid, b', w') \<longrightarrow> project_id b' = pid) \<and>
   (ensure_project_id L token b w = (Inr pid, b', w') \<and> pid \<noteq> [] \<longrightarrow>
      ensure_project_id L token2 b' w2 = (Inr pid, b', w2)) \<and>
   (tier \<noteq> ''free-tier'' \<and>
    json_dump L (- 1) (onboard_request_of env tier) = Some body \<and>
    (\<forall>i<ONBOARD_MAX_RETRIES. pending L (network wo (curl_handles wo + i))) \<longrightarrow>
      (\<exists>w'. onboard_for_project L token env tier bo wo =
              (Inl (OnboardingError ''Failed to complete onboarding'' tier), bo, w') \<and>
            length (requests w') = length (requests wo) + 30 \<and>
            slept_seconds w' = slept_seconds wo + 60))"
proof -
  have a: "project_id b' = pid" if "ensure_project_id L token b w = (Inr pid, b', w')"
    using that by (rule ensure_project_id_cached)
  have b: "ensure_project_id L token2 b' w2 = (Inr pid, b', w2)"
    if "ensure_project_id L token b w = (Inr pid, b', w')" "pid \<noteq> []"
    using a [OF that(1)] that(2) by (simp add: ensure_project_id_def)
  have c: "\<exists>w'. onboard_for_project L token env tier bo wo =
              (Inl (OnboardingError ''Failed to complete onboarding'' tier), bo, w') \<and>
            length (requests w') = length (requests wo) + 30 \<and>
            slept_seconds w' = slept_seconds wo + 60"
    if "tier \<noteq> ''free-tier''" "json_dump L (- 1) (onboard_request_of env tier) = Some body"
      "\<forall>i<ONBOARD_MAX_RETRIES. pending L (network wo (curl_handles wo + i))"
  proof -
    from onboard_loop_pending [OF that(2,3), of token tier] obtain w' where
      "onboard_loop L token tier (onboard_request_of env tier) ONBOARD_MAX_RETRIES wo = (Inr None, w')"
      "length (requests w') = length (requests wo) + ONBOARD_MAX_RETRIES"
      "slept_seconds w' = slept_seconds wo + ONBOARD_SLEEP_SECONDS * ONBOARD_MAX_RETRIES"
      by blast
    then show ?thesis using that(1)
      by (simp add: onboard_for_project_def ONBOARD_MAX_RETRIES_def ONBOARD_SLEEP_SECONDS_def)
  qed
  show ?thesis using a b c by blast
qed

text \<open>
  The theorem at an account with a tier and the project \<open>project-1\<close>, followed by a
  later call in another world, and at a standard tier whose onboarding never finishes.
\<close>

theorem ensure_project_id_memoized_witness:
  "ensure_project_id project_library ''token'' (example_backend None [])
       (example_world 0 [ok_response [''TIER'']] []) =
     (Inr ''project-1'', example_backend None ''project-1'',
      snd (snd (ensure_project_id project_library ''token'' (example_backend None [])
       (example_world 0 [ok_response [''TIER'']] [])))) \<and>
   ensure_project_id project_library ''later'' (example_backend None ''project-1'')
       (example_world 5 [] []) =
     (Inr ''project-1'', example_backend None ''project-1'', example_world 5 [] []) \<and>
   (\<exists>w'. onboard_for_project project_library ''token'' ''env-project'' ''standard-tier''
            (example_backend None []) polling_world =
          (Inl (OnboardingError ''Failed to complete onboarding'' ''standard-tier''),
           example_backend None [], w') \<and>
        length (requests w') = 30 \<and> slept_seconds w' = 60)"
  using ensure_project_id_memoized
    [where L = project_library and token = "''token''" and ?token2.0 = "''later''"
       and b = "example_backend None []" and w = "example_world 0 [ok_response [''TIER'']] []"
       and pid = "''project-1''" and b' = "example_backend None ''project-1''"
       and w' = "snd (snd (ensure_project_id project_library ''token'' (example_backend None [])
            (example_world 0 [ok_response [''TIER'']] [])))"
       and ?w2.0 = "example_world 5 [] []"
       and tier = "''standard-tier''" and env = "''env-project''" and body = "''request''"
       and bo = "example_backend None []" and wo = polling_world]
  by (simp add: example_defs project_defs auth_defs)

text \<open>
  C7 as stated fails for the free-tier outcome. The account has no tier and its onboarding
  is done without a project, so the first call succeeds with the empty project id after
  two requests. The next call succeeds with the empty id again, but only after another
  discovery request and another onboarding request.
\<close>

theorem ensure_project_id_free_tier_counterexample:
  "fst (ensure_project_id project_library ''token'' (example_backend None []) free_tier_world) = Inr [] \<and>
   length (requests (snd (snd
     (ensure_project_id project_library ''token'' (example_backend None []) free_tier_world)))) = 2 \<and>
   fst (ensure_project_id project_library ''token''
     (fst (snd (ensure_project_id project_library ''token'' (example_backend None []) free_tier_world)))
     (snd (snd (ensure_project_id project_library ''token'' (example_backend None []) free_tier_world)))) = Inr [] \<and>
   map url (requests (snd (snd (ensure_project_id project_library ''token''
     (fst (snd (ensure_project_id project_library ''token'' (example_backend None []) free_tier_world)))
     (snd (snd (ensure_project_id project_library ''token'' (example_backend None []) free_tier_world))))))) =
     [get_api_endpoint @ '':loadCodeAssist'', get_api_endpoint @ '':onboardUser'',
      get_api_endpoint @ '':loadCodeAssist'', get_api_endpoint @ '':onboardUser'']"
  by (simp add: example_defs project_defs auth_defs numeral_eq_Suc)

section \<open>HTTP status of a completion call\<close>




section \<open>Credential round trip\<close>

text \<open>
  C9. For every credential, \<open>to_json\<close> followed by \<open>from_json\<close> raises nothing and
  gives back a credential equal in all four fields: access_token, refresh_token,
  token_type and expiry_date.
\<close>

theorem credentials_json_roundtrip:
  "from_json L (to_json (c :: GeminiOAuthCredentials)) = Inr c"
  by (simp add: from_json_def to_json_def value_string_def value_int64_def)
section \<open>Provider payload of a transcript\<close>

lemma prepare_entries_append:
  "prepare_entries (xs @ ys) = prepare_entries xs @ prepare_entries ys"
  by (induction xs) (simp_all add: Let_def)

lemma prepare_entries_concat:
  "prepare_entries msgs = concat (map (\<lambda>msg. prepare_entries [msg]) msgs)"
  by (induction msgs) (simp_all add: Let_def)

text \<open>
  C10. The provider payload of a message list is the concatenation, message by message,
  of what each message contributes, and a message contributes no entry or one entry.
  A message with empty content, no parts, no tool calls and no tool-call id contributes
  no entry. An entry carries the provider role of its message: \<open>model\<close> for
  \<open>Assistant\<close>, \<open>user\<close> for \<open>User\<close> and for \<open>System\<close>.
\<close>

theorem prepare_messages_roles:
  "prepare_messages msgs = JArray (concat (map (\<lambda>m. prepare_entries [m]) msgs)) \<and>
   (is_blank msg \<longrightarrow> prepare_entries [msg] = []) \<and>
   (prepare_entries [msg] = [] \<or>
    (\<exists>ps. prepare_entries [msg] =
       [JObject [(''role'', JString (provider_role (role msg))), (''parts'', JArray ps)]]))"
proof -
  have a: "prepare_messages msgs = JArray (concat (map (\<lambda>m. prepare_entries [m]) msgs))"
    unfolding prepare_messages_def using prepare_entries_concat [of msgs] by simp
  have b: "is_blank msg \<longrightarrow> prepare_entries [msg] = []"
    by (simp add: is_blank_def content_parts_of_def)
  have c: "prepare_entries [msg] = [] \<or>
    (\<exists>ps. prepare_entries [msg] =
       [JObject [(''role'', JString (provider_role (role msg))), (''parts'', JArray ps)]])"
    by (cases "role msg") (simp_all add: provider_role_def Let_def)
  show ?thesis using a b c by blast
qed

text \<open>
  The theorem at an assistant message, a blank system message and a system message with
  content.
\<close>

theorem prepare_messages_roles_witness:
  "is_blank (new_Message System []) \<and>
   prepare_entries [new_Message System []] = [] \<and>
   prepare_messages
     [new_Message Assistant ''hi'', new_Message System [], new_Message System ''be brief''] =
     JArray
       [JObject [(''role'', JString ''model''), (''parts'', JArray [JObject [(''text'', JString ''hi'')]])],
        JObject [(''role'', JString ''user''),
                 (''parts'', JArray [JObject [(''text'', JString ''be brief'')]])]]"
  using prepare_messages_roles
    [of "[new_Message Assistant ''hi'', new_Message System [], new_Message System ''be brief'']"
        "new_Message System []"]
  by (simp add: is_blank_def new_Message_def content_parts_of_def)


end
